theory Spec2Isabelle
  imports Main "HOL-Library.Word"
begin

unbundle bit_operations_syntax

section \<open>The SimpleFileIo interface of the NTFS driver (uefi\_file.c)\<close>

text \<open>
  The theory embeds the file-handle layer of \<^verbatim>\<open>src/uefi-driver/uefi_file.c\<close>:
  \<^verbatim>\<open>FileOpen\<close>, \<^verbatim>\<open>FileClose\<close>, \<^verbatim>\<open>FileDelete\<close>, \<^verbatim>\<open>DirHook\<close>,
  \<^verbatim>\<open>FileReadDir\<close>, \<^verbatim>\<open>FileRead\<close>, \<^verbatim>\<open>FileWrite\<close>, \<^verbatim>\<open>FileGetInfo\<close> and
  \<^verbatim>\<open>FileOpenVolume\<close>, over the structures of \<^verbatim>\<open>uefi_driver.h\<close>.
  The NTFS engine behind it (\<^verbatim>\<open>uefi_bridge.c\<close>), the helper macros
  (\<^verbatim>\<open>uefi_support.h\<close>) and the UEFI headers are not among the sources: what the
  engine answers is a parameter (the record \<open>ENV\<close>), and what its primitives do to the
  driver's structures is modelled from the specification, each such definition saying so.
\<close>

subsection \<open>Status codes\<close>

text \<open>
  \<^verbatim>\<open>EFI_STATUS\<close>. \<^verbatim>\<open>EFI_ERROR\<close> tests the high bit of the code: it holds for every
  code but success and the warnings.
\<close>

datatype EFI_STATUS =
    EFI_SUCCESS
  | EFI_WARN_DELETE_FAILURE
  | EFI_INVALID_PARAMETER
  | EFI_UNSUPPORTED
  | EFI_BAD_BUFFER_SIZE
  | EFI_BUFFER_TOO_SMALL
  | EFI_DEVICE_ERROR
  | EFI_WRITE_PROTECTED
  | EFI_OUT_OF_RESOURCES
  | EFI_VOLUME_CORRUPTED
  | EFI_VOLUME_FULL
  | EFI_NO_MEDIA
  | EFI_NOT_FOUND
  | EFI_ACCESS_DENIED
  | EFI_END_OF_FILE

fun EFI_ERROR :: "EFI_STATUS \<Rightarrow> bool" where
  "EFI_ERROR EFI_SUCCESS = False"
| "EFI_ERROR EFI_WARN_DELETE_FAILURE = False"
| "EFI_ERROR _ = True"

subsection \<open>Machine types, mode bits and path characters\<close>

type_synonym CHAR16 = "16 word"
type_synonym UINT8 = "8 word"
type_synonym UINT32 = "32 word"
type_synonym UINT64 = "64 word"

text \<open>
  Modelled from the spec: the open modes Read, Write and Create and the directory
  attribute (\<^verbatim>\<open>EFI_FILE_MODE_READ\<close>, \<^verbatim>\<open>EFI_FILE_MODE_WRITE\<close>, \<^verbatim>\<open>EFI_FILE_MODE_CREATE\<close>
  and \<^verbatim>\<open>EFI_FILE_DIRECTORY\<close> of the UEFI headers, which are not in the sources), as
  the bits the UEFI specification assigns them.
\<close>

definition EFI_FILE_MODE_READ :: UINT64 where
  "EFI_FILE_MODE_READ = 0x0000000000000001"

definition EFI_FILE_MODE_WRITE :: UINT64 where
  "EFI_FILE_MODE_WRITE = 0x0000000000000002"

definition EFI_FILE_MODE_CREATE :: UINT64 where
  "EFI_FILE_MODE_CREATE = 0x8000000000000000"

definition EFI_FILE_DIRECTORY :: UINT64 where
  "EFI_FILE_DIRECTORY = 0x0000000000000010"

text \<open>
  Modelled from the spec: the path delimiter and the alternate delimiter
  (\<^verbatim>\<open>PATH_CHAR\<close>, \<^verbatim>\<open>DOS_PATH_CHAR\<close> and \<^verbatim>\<open>IS_PATH_DELIMITER\<close> of uefi\_support.h,
  not in the sources): a slash and a backslash.
\<close>

definition PATH_CHAR :: CHAR16 where
  "PATH_CHAR = 0x2F"

definition DOS_PATH_CHAR :: CHAR16 where
  "DOS_PATH_CHAR = 0x5C"

definition IS_PATH_DELIMITER :: "CHAR16 \<Rightarrow> bool" where
  "IS_PATH_DELIMITER c = (c = PATH_CHAR \<or> c = DOS_PATH_CHAR)"

text \<open>The names \<^verbatim>\<open>L"."\<close> and \<^verbatim>\<open>L".."\<close> of \<^verbatim>\<open>FileOpen\<close>; a string is the list of its
  code units without the terminating NUL, so \<^verbatim>\<open>*Name == 0\<close> is \<open>Name = []\<close>.\<close>

definition DOT :: "CHAR16 list" where
  "DOT = [0x2E]"

definition DOTDOT :: "CHAR16 list" where
  "DOTDOT = [0x2E, 0x2E]"

subsection \<open>The structures of uefi\_driver.h\<close>

text \<open>
  \<^verbatim>\<open>EFI_NTFS_FILE\<close>. The two embedded \<^verbatim>\<open>EFI_FILE\<close> members are the two handle
  values of one instance (see \<open>EFI_FILE_HANDLE\<close> below). \<^verbatim>\<open>Path\<close> is \<open>None\<close> while the
  pointer is NULL; \<^verbatim>\<open>BaseName\<close> points into \<^verbatim>\<open>Path\<close> and is kept as the index it
  points at. \<^verbatim>\<open>RefCount\<close> is an \<^verbatim>\<open>INTN\<close>, \<^verbatim>\<open>DirPos\<close> and \<^verbatim>\<open>Offset\<close> are \<^verbatim>\<open>INT64\<close>:
  they are integers here (signed overflow, undefined in C, would take \<open>2^63\<close> open handles).
  Every instance belongs to the one volume of the state, so the \<^verbatim>\<open>FileSystem\<close> pointer
  is not a field.
\<close>

record EFI_NTFS_FILE =
  IsDir :: bool
  IsRoot :: bool
  DirPos :: int
  Offset :: int
  Path :: "CHAR16 list option"
  BaseName :: nat
  RefCount :: int
  NtfsInode :: "nat option"

text \<open>
  \<^verbatim>\<open>EFI_FS\<close>, the fields the file layer reads or writes. Modelled from the spec: the
  engine-owned volume object \<^verbatim>\<open>NtfsVolume\<close> is kept as the mount state (\<open>Mounted\<close>)
  and what \<^verbatim>\<open>NtfsIsVolumeReadOnly\<close> and \<^verbatim>\<open>NtfsGetVolumeFreeSpace\<close> answer for it
  (\<open>ReadOnly\<close>, \<open>FreeSpace\<close>); the block transport is kept as the two media
  descriptions \<^verbatim>\<open>BlockIo->Media\<close> and \<^verbatim>\<open>BlockIo2->Media\<close>.
\<close>

record EFI_BLOCK_IO_MEDIA =
  BlockSize :: UINT32
  LastBlock :: UINT64

record EFI_FS =
  Mounted :: bool
  ReadOnly :: bool
  FreeSpace :: UINT64
  BlockIo :: EFI_BLOCK_IO_MEDIA
  BlockIo2 :: "EFI_BLOCK_IO_MEDIA option"
  NtfsVolumeLabel :: "CHAR16 list option"
  TotalRefCount :: int

text \<open>The driver's memory: the volume and the file instances allocated on it, by address.\<close>

record STATE =
  FileSystem :: EFI_FS
  Files :: "nat \<Rightarrow> EFI_NTFS_FILE option"

text \<open>
  An \<^verbatim>\<open>EFI_FILE_HANDLE\<close> is the address of one of the two \<^verbatim>\<open>EFI_FILE\<close> members of an
  instance. \<^verbatim>\<open>RO_ACCESS\<close> tells which one, by the word that follows the member (the
  all-ones marker \<^verbatim>\<open>MarkerRO\<close> after \<^verbatim>\<open>EfiFileRO\<close>, \<^verbatim>\<open>DetectRO\<close> after
  \<^verbatim>\<open>EfiFileRW\<close>), and \<^verbatim>\<open>BASE_FILE\<close> steps back to the instance. A handle value is
  the address of the instance tagged with the member.
\<close>

datatype EFI_FILE_HANDLE = EfiFileRW nat | EfiFileRO nat

fun RO_ACCESS :: "EFI_FILE_HANDLE \<Rightarrow> bool" where
  "RO_ACCESS (EfiFileRO a) = True"
| "RO_ACCESS (EfiFileRW a) = False"

fun BASE_FILE :: "EFI_FILE_HANDLE \<Rightarrow> nat" where
  "BASE_FILE (EfiFileRO a) = a"
| "BASE_FILE (EfiFileRW a) = a"

subsection \<open>Buffers and directory entries\<close>

text \<open>
  \<^verbatim>\<open>EFI_FILE_INFO\<close>, \<^verbatim>\<open>EFI_FILE_SYSTEM_INFO\<close> (UEFI headers): sizes are byte counts
  (\<^verbatim>\<open>UINTN\<close>/\<^verbatim>\<open>UINT64\<close> values far below their range: a header size plus the size of
  a name), the three \<^verbatim>\<open>EFI_TIME\<close> stamps are opaque numbers.
\<close>

record FILE_ATTRS =
  FileSize :: UINT64
  PhysicalSize :: UINT64
  CreateTime :: nat
  LastAccessTime :: nat
  ModificationTime :: nat
  Attribute :: UINT64

record EFI_FILE_INFO =
  Size :: nat
  Attrs :: FILE_ATTRS
  FileName :: "CHAR16 list"

record EFI_FILE_SYSTEM_INFO =
  FSSize :: nat
  FSReadOnly :: bool
  VolumeSize :: UINT64
  FSFreeSpace :: UINT64
  FSBlockSize :: UINT32
  VolumeLabel :: "CHAR16 list"

text \<open>
  The caller's buffer \<^verbatim>\<open>VOID* Data\<close>: raw bytes, or the structure an operation has
  written into it. The byte layout of the structures is not modelled.
\<close>

datatype BUFFER =
    Bytes "UINT8 list"
  | FileInfo EFI_FILE_INFO
  | FileSystemInfo EFI_FILE_SYSTEM_INFO
  | VolumeLabelInfo "CHAR16 list"

definition ZeroAttrs :: FILE_ATTRS where
  "ZeroAttrs = \<lparr>FileSize = 0, PhysicalSize = 0, CreateTime = 0, LastAccessTime = 0,
     ModificationTime = 0, Attribute = 0\<rparr>"

text \<open>
  The cast \<^verbatim>\<open>(EFI_FILE_INFO*)Data\<close>. A buffer that holds no \<^verbatim>\<open>EFI_FILE_INFO\<close> yet is
  read as the all-zero record; \<^verbatim>\<open>DirHook\<close> overwrites every field before an entry is
  returned.
\<close>

fun INFO_OF :: "BUFFER \<Rightarrow> EFI_FILE_INFO" where
  "INFO_OF (FileInfo i) = i"
| "INFO_OF _ = \<lparr>Size = 0, Attrs = ZeroAttrs, FileName = []\<rparr>"

text \<open>The arguments of one invocation of the directory callback (\<^verbatim>\<open>NTFS_DIRHOOK\<close>).
  \<^verbatim>\<open>NameLen\<close>, an \<^verbatim>\<open>INT32\<close>, is the length of a name and never negative.\<close>

record DIRENT =
  EntryName :: "CHAR16 list"
  NameLen :: nat
  NameType :: int
  Pos :: int
  MRef :: UINT64
  DtType :: UINT32

record DIR_DATA =
  Parent :: EFI_NTFS_FILE
  Info :: EFI_FILE_INFO

subsection \<open>What is not in the sources\<close>

text \<open>What an engine call that opens or creates a file can answer.\<close>

datatype OPEN_ANSWER =
    OpenFailed EFI_STATUS
  | OpenedNew nat bool
  | OpenedExisting nat

text \<open>
  The environment of the file layer: constants and macros of headers that are not in the
  sources, and the answers of the NTFS engine and of the pool allocator. Every theorem
  below holds for every environment, or says what it assumes of it.
  \<^item> \<open>SIZE_OF_EFI_FILE_INFO\<close>, \<open>SIZE_OF_EFI_FILE_SYSTEM_INFO\<close>: the header sizes;
  \<^item> \<open>GetInodeNumber\<close>: the inode number of an MFT reference;
  \<^item> \<open>CleanPath\<close>: the path cleaner of uefi\_support.c;
  \<^item> \<open>AllocatePath\<close>: whether \<^verbatim>\<open>AllocateZeroPool\<close> returns a path buffer;
  \<^item> \<open>engMount\<close>: the status of the engine's mount;
  \<^item> \<open>engAllocateFile\<close>: the status of \<^verbatim>\<open>NtfsAllocateFile\<close> and the address of the
    new instance;
  \<^item> \<open>engOpenFile\<close>, \<open>engCreateFile\<close>: the engine's answer for a path (for a create,
    with the directory flag);
  \<^item> \<open>engDeleteFile\<close>: the status of the engine's delete;
  \<^item> \<open>engReadDirectory\<close>: the status of reading a directory node, and its entries;
  \<^item> \<open>engGetFileInfo\<close>: the status and the attributes of the engine's metadata query;
  \<^item> \<open>engReadFile\<close>, \<open>engWriteFile\<close>: the status of a transfer and the bytes read, or
    the number of bytes written.
\<close>

record ENV =
  SIZE_OF_EFI_FILE_INFO :: nat
  SIZE_OF_EFI_FILE_SYSTEM_INFO :: nat
  GetInodeNumber :: "UINT64 \<Rightarrow> UINT64"
  CleanPath :: "CHAR16 list \<Rightarrow> CHAR16 list"
  AllocatePath :: "STATE \<Rightarrow> bool"
  engMount :: "EFI_FS \<Rightarrow> EFI_STATUS"
  engAllocateFile :: "STATE \<Rightarrow> EFI_STATUS \<times> nat"
  engOpenFile :: "STATE \<Rightarrow> CHAR16 list \<Rightarrow> OPEN_ANSWER"
  engCreateFile :: "STATE \<Rightarrow> CHAR16 list \<Rightarrow> bool \<Rightarrow> OPEN_ANSWER"
  engDeleteFile :: "EFI_NTFS_FILE \<Rightarrow> EFI_STATUS"
  engReadDirectory :: "nat option \<Rightarrow> EFI_STATUS \<times> DIRENT list"
  engGetFileInfo :: "EFI_NTFS_FILE \<Rightarrow> UINT64 \<Rightarrow> bool \<Rightarrow> EFI_STATUS \<times> FILE_ATTRS"
  engReadFile :: "EFI_NTFS_FILE \<Rightarrow> nat \<Rightarrow> EFI_STATUS \<times> UINT8 list"
  engWriteFile :: "EFI_NTFS_FILE \<Rightarrow> UINT8 list \<Rightarrow> nat \<Rightarrow> EFI_STATUS \<times> nat"

text \<open>
  Modelled from the spec: the inode numbers of the filesystem root and of the first user
  file (\<^verbatim>\<open>FILE_ROOT\<close>, \<^verbatim>\<open>FILE_FIRST_USER\<close>, constants of the engine's headers): 5 and 16.
\<close>

definition FILE_ROOT :: UINT64 where
  "FILE_ROOT = 5"

definition FILE_FIRST_USER :: UINT64 where
  "FILE_FIRST_USER = 16"

text \<open>
  Modelled from the spec: \<^verbatim>\<open>SafeStrSize\<close> (uefi\_support.h), the size in bytes a string
  needs, its terminating NUL included.
\<close>

definition SafeStrSize :: "CHAR16 list \<Rightarrow> nat" where
  "SafeStrSize str = (length str + 1) * 2"

text \<open>Modelled from the spec: \<^verbatim>\<open>NtfsIsVolumeReadOnly\<close>, the engine's read-only query.\<close>

definition NtfsIsVolumeReadOnly :: "EFI_FS \<Rightarrow> bool" where
  "NtfsIsVolumeReadOnly fs = ReadOnly fs"

subsection \<open>Engine primitives, as they act on the driver's structures\<close>

text \<open>
  Modelled from the spec: \<^verbatim>\<open>NtfsGetFileInfo\<close>, the engine's per-inode metadata query
  (\<open>GetFileInfo(object, inodeRef, isDirectoryHint) -> metadata\<close>). It fills the attributes
  of \<open>Info\<close> and leaves its size and its name to the caller.
\<close>

definition NtfsGetFileInfo ::
  "ENV \<Rightarrow> EFI_NTFS_FILE \<Rightarrow> EFI_FILE_INFO \<Rightarrow> UINT64 \<Rightarrow> bool \<Rightarrow> EFI_STATUS \<times> EFI_FILE_INFO" where
  "NtfsGetFileInfo E File info mref isdir =
     (case engGetFileInfo E File mref isdir of
        (Status, attrs) \<Rightarrow>
          if EFI_ERROR Status then (Status, info) else (Status, info\<lparr>Attrs := attrs\<rparr>))"

text \<open>
  Modelled from the spec: \<^verbatim>\<open>NtfsWriteFile\<close> and \<^verbatim>\<open>NtfsReadFile\<close>, the engine's
  transfers (\<open>WriteFile(object, buffer) -> bytesWritten\<close>, \<open>ReadFile(object, buffer) ->
  bytesRead\<close>, "advancing offset"): a transfer that succeeds advances \<^verbatim>\<open>Offset\<close> by the
  bytes moved and reports their number in \<^verbatim>\<open>*Len\<close>.
\<close>

definition NtfsWriteFile ::
  "ENV \<Rightarrow> STATE \<Rightarrow> nat \<Rightarrow> EFI_NTFS_FILE \<Rightarrow> UINT8 list \<Rightarrow> nat \<Rightarrow> EFI_STATUS \<times> STATE \<times> nat" where
  "NtfsWriteFile E s a File Data Len =
     (case engWriteFile E File Data Len of
        (Status, n) \<Rightarrow>
          if EFI_ERROR Status then (Status, s, Len)
          else (Status, s\<lparr>Files := (Files s)(a \<mapsto> File\<lparr>Offset := Offset File + int n\<rparr>)\<rparr>, n))"

definition NtfsReadFile ::
  "ENV \<Rightarrow> STATE \<Rightarrow> nat \<Rightarrow> EFI_NTFS_FILE \<Rightarrow> BUFFER \<Rightarrow> nat \<Rightarrow> EFI_STATUS \<times> STATE \<times> nat \<times> BUFFER" where
  "NtfsReadFile E s a File Data Len =
     (case engReadFile E File Len of
        (Status, bs) \<Rightarrow>
          if EFI_ERROR Status then (Status, s, Len, Data)
          else (Status,
                s\<lparr>Files := (Files s)(a \<mapsto> File\<lparr>Offset := Offset File + int (length bs)\<rparr>)\<rparr>,
                length bs, Bytes bs))"

text \<open>
  Modelled from the spec: the visit of \<^verbatim>\<open>NtfsReadDirectory\<close> (uefi\_bridge.c): the
  engine calls the hook on the entries from the enumeration position on. A hook that
  returns 0 has skipped its entry and the visit goes on; a positive return stops the visit
  after that entry; a negative return fails the visit with the status the hook left in
  \<^verbatim>\<open>errno\<close>, the position staying at the entry; past the last entry the visit ends with
  \<^verbatim>\<open>EFI_END_OF_FILE\<close>. \<open>None\<close> is a hook that did not return (a failed \<^verbatim>\<open>FS_ASSERT\<close>).
\<close>

fun visit_entries ::
  "(DIR_DATA \<Rightarrow> DIRENT \<Rightarrow> (int \<times> DIR_DATA \<times> EFI_STATUS option) option) \<Rightarrow>
     DIRENT list \<Rightarrow> nat \<Rightarrow> DIR_DATA \<Rightarrow> (EFI_STATUS \<times> nat \<times> DIR_DATA) option" where
  "visit_entries Hook [] pos d = Some (EFI_END_OF_FILE, pos, d)"
| "visit_entries Hook (e # es) pos d =
     (case Hook d e of
        None \<Rightarrow> None
      | Some (r, d', errno) \<Rightarrow>
          if r = 0 then visit_entries Hook es (pos + 1) d'
          else if r < 0 then
            Some (case errno of Some st \<Rightarrow> st | None \<Rightarrow> EFI_DEVICE_ERROR, pos, d')
          else Some (EFI_SUCCESS, pos + 1, d'))"

text \<open>
  Modelled from the spec: \<^verbatim>\<open>NtfsReadDirectory\<close>. The enumeration position \<^verbatim>\<open>DirPos\<close>
  is the number of entries already visited. A failure of the engine itself is returned
  before any entry is visited.
\<close>

definition NtfsReadDirectory ::
  "ENV \<Rightarrow> EFI_NTFS_FILE \<Rightarrow>
     (DIR_DATA \<Rightarrow> DIRENT \<Rightarrow> (int \<times> DIR_DATA \<times> EFI_STATUS option) option) \<Rightarrow>
     DIR_DATA \<Rightarrow> (EFI_STATUS \<times> EFI_NTFS_FILE \<times> DIR_DATA) option" where
  "NtfsReadDirectory E File Hook HookData =
     (case engReadDirectory E (NtfsInode File) of
        (st, ents) \<Rightarrow>
          if EFI_ERROR st then Some (st, File, HookData)
          else
            (case visit_entries Hook (drop (nat (DirPos File)) ents) (nat (DirPos File)) HookData of
               None \<Rightarrow> None
             | Some (st', pos, d) \<Rightarrow> Some (st', File\<lparr>DirPos := int pos\<rparr>, d)))"

subsection \<open>Reading: DirHook, FileReadDir, FileRead\<close>

text \<open>
  \<^verbatim>\<open>DirHook\<close> (lines 294-327). The result is the returned \<^verbatim>\<open>INT32\<close>, the hook data as
  the call leaves it, and the status given to \<^verbatim>\<open>NtfsSetErrno\<close> if any; \<open>None\<close> is the
  failed \<^verbatim>\<open>FS_ASSERT(NameLen < 256)\<close>. \<^verbatim>\<open>CopyMem\<close> of \<^verbatim>\<open>NameLen\<close> code units and the
  NUL after them make \<^verbatim>\<open>FileName\<close> the first \<^verbatim>\<open>NameLen\<close> units of the name.
\<close>

definition DirHook ::
  "ENV \<Rightarrow> DIR_DATA \<Rightarrow> DIRENT \<Rightarrow> (int \<times> DIR_DATA \<times> EFI_STATUS option) option" where
  "DirHook E HookData e =
     (if GetInodeNumber E (MRef e) < FILE_FIRST_USER \<and> GetInodeNumber E (MRef e) \<noteq> FILE_ROOT
      then Some (0, HookData, None)
      else if \<not> NameLen e < 256 then None
      else if Size (Info HookData) < (NameLen e + 1) * 2
      then Some (- 1, HookData, Some EFI_BUFFER_TOO_SMALL)
      else
        (case NtfsGetFileInfo E (Parent HookData)
                ((Info HookData)\<lparr>FileName := take (NameLen e) (EntryName e),
                   Size := SIZE_OF_EFI_FILE_INFO E + (NameLen e + 1) * 2\<rparr>)
                (MRef e) (DtType e = 4) of
           (Status, info) \<Rightarrow>
             if EFI_ERROR Status then Some (- 1, HookData\<lparr>Info := info\<rparr>, Some Status)
             else Some (1, HookData\<lparr>Info := info\<rparr>, None)))"

text \<open>\<^verbatim>\<open>FileReadDir\<close> (lines 337-356): status, the instance, \<^verbatim>\<open>*Len\<close> and the buffer.\<close>

definition FileReadDir ::
  "ENV \<Rightarrow> EFI_NTFS_FILE \<Rightarrow> nat \<Rightarrow> BUFFER \<Rightarrow> (EFI_STATUS \<times> EFI_NTFS_FILE \<times> nat \<times> BUFFER) option" where
  "FileReadDir E File Len Data =
     (case NtfsReadDirectory E File (DirHook E)
             \<lparr>Parent = File, Info = (INFO_OF Data)\<lparr>Size := Len\<rparr>\<rparr> of
        None \<Rightarrow> None
      | Some (Status, File', HookData) \<Rightarrow>
          if EFI_ERROR Status then
            (if Status = EFI_END_OF_FILE
             then Some (EFI_SUCCESS, File', 0, FileInfo (Info HookData))
             else Some (Status, File', Len, FileInfo (Info HookData)))
          else Some (EFI_SUCCESS, File', Size (Info HookData), FileInfo (Info HookData)))"

text \<open>
  \<^verbatim>\<open>FileRead\<close> (lines 366-382). \<open>None\<close>: the handle is not the address of a live
  instance (the C dereferences a dangling pointer), or an assertion failed.
\<close>

definition FileRead ::
  "ENV \<Rightarrow> STATE \<Rightarrow> EFI_FILE_HANDLE \<Rightarrow> nat \<Rightarrow> BUFFER \<Rightarrow> (EFI_STATUS \<times> STATE \<times> nat \<times> BUFFER) option" where
  "FileRead E s This Len Data =
     (case Files s (BASE_FILE This) of
        None \<Rightarrow> None
      | Some File \<Rightarrow>
          if NtfsInode File = None then Some (EFI_DEVICE_ERROR, s, Len, Data)
          else if IsDir File then
            (case FileReadDir E File Len Data of
               None \<Rightarrow> None
             | Some (Status, File', Len', Data') \<Rightarrow>
                 Some (Status, s\<lparr>Files := (Files s)(BASE_FILE This \<mapsto> File')\<rparr>, Len', Data'))
          else Some (NtfsReadFile E s (BASE_FILE This) File Data Len))"

subsection \<open>Writing: FileWrite\<close>

text \<open>\<^verbatim>\<open>FileWrite\<close> (lines 399-421).\<close>

definition FileWrite ::
  "ENV \<Rightarrow> STATE \<Rightarrow> EFI_FILE_HANDLE \<Rightarrow> nat \<Rightarrow> UINT8 list \<Rightarrow> (EFI_STATUS \<times> STATE \<times> nat) option" where
  "FileWrite E s This Len Data =
     (case Files s (BASE_FILE This) of
        None \<Rightarrow> None
      | Some File \<Rightarrow>
          if NtfsInode File = None then Some (EFI_DEVICE_ERROR, s, Len)
          else if RO_ACCESS This then Some (EFI_ACCESS_DENIED, s, Len)
          else if NtfsIsVolumeReadOnly (FileSystem s) then Some (EFI_WRITE_PROTECTED, s, Len)
          else if IsDir File then Some (EFI_UNSUPPORTED, s, Len)
          else Some (NtfsWriteFile E s (BASE_FILE This) File Data Len))"

subsection \<open>Metadata: FileGetInfo\<close>

text \<open>The information types \<^verbatim>\<open>FileGetInfo\<close> compares its \<^verbatim>\<open>Type\<close> argument with, and
  any other GUID.\<close>

datatype EFI_GUID =
    gEfiFileInfoGuid
  | gEfiFileSystemInfoGuid
  | gEfiFileSystemVolumeLabelInfoIdGuid
  | OtherGuid nat

text \<open>The string \<^verbatim>\<open>BaseName\<close> points at: the tail of the path from that index on.\<close>

definition BaseNameStr :: "EFI_NTFS_FILE \<Rightarrow> CHAR16 list option" where
  "BaseNameStr File = (case Path File of None \<Rightarrow> None | Some p \<Rightarrow> Some (drop (BaseName File) p))"

text \<open>The size of the volume label as both label branches compute it:
  \<^verbatim>\<open>sizeof(CHAR16)\<close> for a NULL label.\<close>

definition LabelSize :: "EFI_FS \<Rightarrow> nat" where
  "LabelSize fs = (case NtfsVolumeLabel fs of None \<Rightarrow> 2 | Some l \<Rightarrow> SafeStrSize l)"

definition MediaOf :: "EFI_FS \<Rightarrow> EFI_BLOCK_IO_MEDIA" where
  "MediaOf fs = (case BlockIo2 fs of Some m \<Rightarrow> m | None \<Rightarrow> BlockIo fs)"

text \<open>
  \<^verbatim>\<open>FileGetInfo\<close> (lines 509-623): status, \<^verbatim>\<open>*Len\<close> and the buffer; the state is only
  read. \<open>None\<close>: a dangling handle, a NULL path, or the failed
  \<^verbatim>\<open>FS_ASSERT(Size >= sizeof(CHAR16))\<close>. \<^verbatim>\<open>VolumeSize\<close> is computed in 64 bits.
\<close>

definition FileGetInfo ::
  "ENV \<Rightarrow> STATE \<Rightarrow> EFI_FILE_HANDLE \<Rightarrow> EFI_GUID \<Rightarrow> nat \<Rightarrow> BUFFER \<Rightarrow> (EFI_STATUS \<times> nat \<times> BUFFER) option" where
  "FileGetInfo E s This Type Len Data =
     (case Files s (BASE_FILE This) of
        None \<Rightarrow> None
      | Some File \<Rightarrow>
          if NtfsInode File = None then Some (EFI_DEVICE_ERROR, Len, Data)
          else if Type = gEfiFileInfoGuid then
            (case BaseNameStr File of
               None \<Rightarrow> None
             | Some base \<Rightarrow>
                 if \<not> 2 \<le> SafeStrSize base then None
                 else if Len < SIZE_OF_EFI_FILE_INFO E + SafeStrSize base
                 then Some (EFI_BUFFER_TOO_SMALL, SIZE_OF_EFI_FILE_INFO E + SafeStrSize base, Data)
                 else
                   (case NtfsGetFileInfo E File
                           ((INFO_OF Data)\<lparr>Size := 0, Attrs := ZeroAttrs\<rparr>) 0 (IsDir File) of
                      (Status, info) \<Rightarrow>
                        if EFI_ERROR Status then Some (Status, Len, FileInfo info)
                        else Some (EFI_SUCCESS, SafeStrSize base + SIZE_OF_EFI_FILE_INFO E,
                               FileInfo (info\<lparr>FileName := base,
                                 Size := SafeStrSize base + SIZE_OF_EFI_FILE_INFO E\<rparr>))))
          else if Type = gEfiFileSystemInfoGuid then
            (if Len < SIZE_OF_EFI_FILE_SYSTEM_INFO E + LabelSize (FileSystem s)
             then Some (EFI_BUFFER_TOO_SMALL,
                    SIZE_OF_EFI_FILE_SYSTEM_INFO E + LabelSize (FileSystem s), Data)
             else
               (let bs = (if BlockSize (MediaOf (FileSystem s)) = 0 then 512
                          else BlockSize (MediaOf (FileSystem s)))
                in Some (EFI_SUCCESS, LabelSize (FileSystem s) + SIZE_OF_EFI_FILE_SYSTEM_INFO E,
                     FileSystemInfo
                       \<lparr>FSSize = LabelSize (FileSystem s) + SIZE_OF_EFI_FILE_SYSTEM_INFO E,
                        FSReadOnly = NtfsIsVolumeReadOnly (FileSystem s),
                        VolumeSize = (LastBlock (MediaOf (FileSystem s)) + 1) * ucast bs,
                        FSFreeSpace = FreeSpace (FileSystem s),
                        FSBlockSize = bs,
                        VolumeLabel =
                          (case NtfsVolumeLabel (FileSystem s) of None \<Rightarrow> [] | Some l \<Rightarrow> l)\<rparr>)))
          else if Type = gEfiFileSystemVolumeLabelInfoIdGuid then
            (if \<not> IsRoot File then Some (EFI_ACCESS_DENIED, Len, Data)
             else if Len < 2 then Some (EFI_BUFFER_TOO_SMALL, Len, Data)
             else if LabelSize (FileSystem s) < Len
             then Some (EFI_BUFFER_TOO_SMALL, LabelSize (FileSystem s), Data)
             else Some (EFI_SUCCESS, LabelSize (FileSystem s),
                    VolumeLabelInfo
                      (case NtfsVolumeLabel (FileSystem s) of None \<Rightarrow> [] | Some l \<Rightarrow> l)))
          else Some (EFI_UNSUPPORTED, Len, Data))"

subsection \<open>Engine primitives of the handle life cycle\<close>

text \<open>Writing one instance, and adding to \<^verbatim>\<open>TotalRefCount\<close>.\<close>

definition SetFile :: "nat \<Rightarrow> EFI_NTFS_FILE \<Rightarrow> STATE \<Rightarrow> STATE" where
  "SetFile a F s = s\<lparr>Files := (Files s)(a \<mapsto> F)\<rparr>"

definition AddTotalRefCount :: "int \<Rightarrow> STATE \<Rightarrow> STATE" where
  "AddTotalRefCount d s =
     s\<lparr>FileSystem := (FileSystem s)\<lparr>TotalRefCount := TotalRefCount (FileSystem s) + d\<rparr>\<rparr>"

text \<open>
  Modelled from the spec: \<^verbatim>\<open>NtfsMountVolume\<close> and \<^verbatim>\<open>NtfsUnmountVolume\<close>, the engine's
  mount and unmount primitives. The transition from unmounted to mounted invokes the
  engine's mount, and "on failure the volume stays Unmounted"; a volume that is mounted
  already is not mounted twice. Unmounting leaves the volume unmounted.
\<close>

definition NtfsMountVolume :: "ENV \<Rightarrow> STATE \<Rightarrow> EFI_STATUS \<times> STATE" where
  "NtfsMountVolume E s =
     (if Mounted (FileSystem s) then (EFI_SUCCESS, s)
      else if EFI_ERROR (engMount E (FileSystem s)) then (engMount E (FileSystem s), s)
      else (EFI_SUCCESS, s\<lparr>FileSystem := (FileSystem s)\<lparr>Mounted := True\<rparr>\<rparr>))"

definition NtfsUnmountVolume :: "STATE \<Rightarrow> STATE" where
  "NtfsUnmountVolume s = s\<lparr>FileSystem := (FileSystem s)\<lparr>Mounted := False\<rparr>\<rparr>"

text \<open>
  Modelled from the spec: \<^verbatim>\<open>NtfsAllocateFile\<close> (\<open>AllocateFileObject(volumeRef) -> object\<close>):
  a zeroed instance at the address the allocator answers, or its error status.
\<close>

definition NewInstance :: EFI_NTFS_FILE where
  "NewInstance = \<lparr>IsDir = False, IsRoot = False, DirPos = 0, Offset = 0, Path = None,
     BaseName = 0, RefCount = 0, NtfsInode = None\<rparr>"

definition NtfsAllocateFile :: "ENV \<Rightarrow> STATE \<Rightarrow> EFI_STATUS \<times> STATE \<times> nat option" where
  "NtfsAllocateFile E s =
     (case engAllocateFile E s of
        (Status, a) \<Rightarrow>
          if EFI_ERROR Status then (Status, s, None)
          else (EFI_SUCCESS, SetFile a NewInstance s, Some a))"

text \<open>
  Modelled from the spec: \<^verbatim>\<open>NtfsFreeFile\<close> (\<open>FreeFileObject(object)\<close>, "no-op unless
  refcount is zero"; in \<^verbatim>\<open>FileOpen\<close>: "This call only destroys the file if RefCount = 0").
  Destroying the instance frees its path with it. A NULL pointer is ignored.
\<close>

definition NtfsFreeFile :: "nat option \<Rightarrow> STATE \<Rightarrow> STATE" where
  "NtfsFreeFile p s =
     (case p of
        None \<Rightarrow> s
      | Some a \<Rightarrow>
          (case Files s a of
             None \<Rightarrow> s
           | Some F \<Rightarrow> if RefCount F = 0 then s\<lparr>Files := (Files s)(a := None)\<rparr> else s))"

text \<open>
  Modelled from the spec: \<^verbatim>\<open>NtfsCloseFile\<close> (\<open>CloseFile(object)\<close>): the engine node of
  the instance is closed, which leaves \<^verbatim>\<open>NtfsInode\<close> NULL.
\<close>

definition NtfsCloseFile :: "nat option \<Rightarrow> STATE \<Rightarrow> STATE" where
  "NtfsCloseFile p s =
     (case p of
        None \<Rightarrow> s
      | Some a \<Rightarrow>
          (case Files s a of
             None \<Rightarrow> s
           | Some F \<Rightarrow> SetFile a (F\<lparr>NtfsInode := None\<rparr>) s))"

text \<open>
  Modelled from the spec: \<^verbatim>\<open>NtfsDeleteFile\<close> (\<open>DeleteFile(object)\<close>): the status is the
  engine's; the node is closed by the call ("No need to close the file, NtfsDeleteFile will
  do it", \<^verbatim>\<open>FileDelete\<close>).
\<close>

definition NtfsDeleteFile :: "ENV \<Rightarrow> nat \<Rightarrow> EFI_NTFS_FILE \<Rightarrow> STATE \<Rightarrow> EFI_STATUS \<times> STATE" where
  "NtfsDeleteFile E a F s = (engDeleteFile E F, SetFile a (F\<lparr>NtfsInode := None\<rparr>) s)"

text \<open>
  Modelled from the spec: \<^verbatim>\<open>NtfsOpenFile\<close> and \<^verbatim>\<open>NtfsCreateFile\<close>
  (\<open>OpenFile(object) -> object\<close>, "may substitute a pre-existing object for the same path";
  \<open>CreateFile(object) -> object\<close>). The engine is asked for the path of the instance. When
  it fails the instance is left as it is. When it opens a node, the instance gets the node,
  the directory flag and the root flag (the path is the delimiter alone). When it hands
  back an instance that is open already, the new one is released and the pointer is
  redirected. \<open>None\<close>: the instance has no path, or the engine hands back the
  address of no other live instance.
\<close>

definition OpenAnswer :: "OPEN_ANSWER \<Rightarrow> STATE \<Rightarrow> nat \<Rightarrow> EFI_NTFS_FILE \<Rightarrow> CHAR16 list \<Rightarrow>
    (EFI_STATUS \<times> STATE \<times> nat) option" where
  "OpenAnswer ans s a F p =
     (case ans of
        OpenFailed Status \<Rightarrow> Some (Status, s, a)
      | OpenedNew ino isdir \<Rightarrow>
          Some (EFI_SUCCESS,
                SetFile a (F\<lparr>NtfsInode := Some ino, IsDir := isdir, IsRoot := (p = [PATH_CHAR])\<rparr>) s,
                a)
      | OpenedExisting b \<Rightarrow>
          if b = a \<or> Files s b = None then None
          else Some (EFI_SUCCESS, s\<lparr>Files := (Files s)(a := None)\<rparr>, b))"

definition NtfsOpenFile :: "ENV \<Rightarrow> STATE \<Rightarrow> nat \<Rightarrow> (EFI_STATUS \<times> STATE \<times> nat) option" where
  "NtfsOpenFile E s a =
     (case Files s a of
        None \<Rightarrow> None
      | Some F \<Rightarrow>
          (case Path F of
             None \<Rightarrow> None
           | Some p \<Rightarrow> OpenAnswer (engOpenFile E s p) s a F p))"

definition NtfsCreateFile :: "ENV \<Rightarrow> STATE \<Rightarrow> nat \<Rightarrow> (EFI_STATUS \<times> STATE \<times> nat) option" where
  "NtfsCreateFile E s a =
     (case Files s a of
        None \<Rightarrow> None
      | Some F \<Rightarrow>
          (case Path F of
             None \<Rightarrow> None
           | Some p \<Rightarrow> OpenAnswer (engCreateFile E s p (IsDir F)) s a F p))"

subsection \<open>Opening: FileOpen\<close>

text \<open>The handle value \<^verbatim>\<open>FileOpen\<close> returns for a mode:
  \<^verbatim>\<open>(Mode & EFI_FILE_MODE_WRITE) ? &F->EfiFileRW : &F->EfiFileRO\<close>.\<close>

definition HandleFor :: "UINT64 \<Rightarrow> nat \<Rightarrow> EFI_FILE_HANDLE" where
  "HandleFor Mode a = (if Mode AND EFI_FILE_MODE_WRITE \<noteq> 0 then EfiFileRW a else EfiFileRO a)"

text \<open>The \<^verbatim>\<open>switch (Mode)\<close> of lines 83-90: the three combinations that \<^verbatim>\<open>break\<close>.\<close>

definition ValidMode :: "UINT64 \<Rightarrow> bool" where
  "ValidMode Mode =
     (Mode = EFI_FILE_MODE_READ
      \<or> Mode = (EFI_FILE_MODE_READ OR EFI_FILE_MODE_WRITE)
      \<or> Mode = (EFI_FILE_MODE_CREATE OR EFI_FILE_MODE_READ OR EFI_FILE_MODE_WRITE))"

text \<open>
  Lines 117-140: the path of the new instance. An absolute name stands alone, any other
  name follows the parent's path and a delimiter; the alternate delimiters of the name
  part are converted; the path is cleaned. \<open>None\<close>: the parent has no path, or
  \<^verbatim>\<open>FS_ASSERT(Path[0] == PATH_CHAR)\<close> fails. The \<^verbatim>\<open>PATH_MAX\<close> bound of \<^verbatim>\<open>SafeStrCpy\<close>
  (uefi\_support.h) is not modelled.
\<close>

definition NewPath :: "ENV \<Rightarrow> EFI_NTFS_FILE \<Rightarrow> CHAR16 list \<Rightarrow> CHAR16 list option" where
  "NewPath E File Name =
     (case (if (case Name of [] \<Rightarrow> False | c # cs \<Rightarrow> IS_PATH_DELIMITER c) then Some []
            else (case Path File of None \<Rightarrow> None | Some p \<Rightarrow> Some (p @ [PATH_CHAR]))) of
        None \<Rightarrow> None
      | Some pre \<Rightarrow>
          (case CleanPath E (pre @ map (\<lambda>c. if c = DOS_PATH_CHAR then PATH_CHAR else c) Name) of
             [] \<Rightarrow> None
           | c # cs \<Rightarrow> if c = PATH_CHAR then Some (c # cs) else None))"

text \<open>Lines 159-164: the index after the last delimiter of the path, 0 if there is none.\<close>

definition BaseNameIndex :: "CHAR16 list \<Rightarrow> nat" where
  "BaseNameIndex p = length p - length (takeWhile (\<lambda>c. c \<noteq> PATH_CHAR) (rev p))"

text \<open>Lines 182-188, and 101-107 for a reopen: one more reference on the instance and on
  the volume, and the handle value for the mode.\<close>

definition Reference ::
  "STATE \<Rightarrow> nat \<Rightarrow> UINT64 \<Rightarrow> (EFI_STATUS \<times> STATE \<times> EFI_FILE_HANDLE option) option" where
  "Reference s a Mode =
     (case Files s a of
        None \<Rightarrow> None
      | Some F \<Rightarrow>
          Some (EFI_SUCCESS,
                AddTotalRefCount 1 (SetFile a (F\<lparr>RefCount := RefCount F + 1\<rparr>) s),
                Some (HandleFor Mode a)))"

text \<open>
  Lines 110-196, the open of another path. The label \<^verbatim>\<open>out\<close> releases the new
  instance on an error (\<^verbatim>\<open>NtfsFreeFile\<close>); the path buffer belongs to the instance once
  it is attached, and is freed with it.
\<close>

definition FileOpenPath ::
  "ENV \<Rightarrow> STATE \<Rightarrow> EFI_NTFS_FILE \<Rightarrow> CHAR16 list \<Rightarrow> UINT64 \<Rightarrow> UINT64 \<Rightarrow>
     (EFI_STATUS \<times> STATE \<times> EFI_FILE_HANDLE option) option" where
  "FileOpenPath E s File Name Mode Attributes =
     (if \<not> AllocatePath E s then Some (EFI_OUT_OF_RESOURCES, s, None)
      else
        (case NewPath E File Name of
           None \<Rightarrow> None
         | Some p \<Rightarrow>
             (case NtfsAllocateFile E s of
                (Status, s1, None) \<Rightarrow> Some (Status, s1, None)
              | (Status, s1, Some a) \<Rightarrow>
                  if p = [PATH_CHAR] \<and> Mode AND EFI_FILE_MODE_CREATE \<noteq> 0
                  then Some (EFI_ACCESS_DENIED, NtfsFreeFile (Some a) s1, None)
                  else
                    (case
                       (if Mode AND EFI_FILE_MODE_CREATE \<noteq> 0
                        then NtfsCreateFile E
                               (SetFile a (NewInstance\<lparr>Path := Some p, BaseName := BaseNameIndex p,
                                  IsDir := (Attributes AND EFI_FILE_DIRECTORY \<noteq> 0)\<rparr>) s1) a
                        else NtfsOpenFile E
                               (SetFile a (NewInstance\<lparr>Path := Some p,
                                  BaseName := BaseNameIndex p\<rparr>) s1) a) of
                       None \<Rightarrow> None
                     | Some (Status', s2, b) \<Rightarrow>
                         if EFI_ERROR Status' then Some (Status', NtfsFreeFile (Some b) s2, None)
                         else Reference s2 b Mode))))"

text \<open>\<^verbatim>\<open>FileOpen\<close> (lines 51-197): status, state and \<^verbatim>\<open>*New\<close> (written on success only).\<close>

definition FileOpen ::
  "ENV \<Rightarrow> STATE \<Rightarrow> EFI_FILE_HANDLE \<Rightarrow> CHAR16 list \<Rightarrow> UINT64 \<Rightarrow> UINT64 \<Rightarrow>
     (EFI_STATUS \<times> STATE \<times> EFI_FILE_HANDLE option) option" where
  "FileOpen E s This Name Mode Attributes =
     (case Files s (BASE_FILE This) of
        None \<Rightarrow> None
      | Some File \<Rightarrow>
          if NtfsIsVolumeReadOnly (FileSystem s) \<and> Mode \<noteq> EFI_FILE_MODE_READ
          then Some (EFI_WRITE_PROTECTED, s, None)
          else if Name = DOTDOT \<and> IsRoot File then Some (EFI_NOT_FOUND, s, None)
          else if \<not> IsDir File then Some (EFI_NOT_FOUND, s, None)
          else if \<not> ValidMode Mode then Some (EFI_INVALID_PARAMETER, s, None)
          else if Mode AND EFI_FILE_MODE_CREATE \<noteq> 0 \<and> (Name = [] \<or> Name = DOT \<or> Name = DOTDOT)
          then Some (EFI_ACCESS_DENIED, s, None)
          else if Name = [] \<or> Name = DOT then Reference s (BASE_FILE This) Mode
          else FileOpenPath E s File Name Mode Attributes)"

subsection \<open>Closing and deleting: FileClose, FileDelete\<close>

text \<open>Lines 230-236 and 283-287: unmount when no file is open on the volume any more.\<close>

definition UnmountIfLast :: "STATE \<Rightarrow> STATE" where
  "UnmountIfLast s = (if TotalRefCount (FileSystem s) \<le> 0 then NtfsUnmountVolume s else s)"

text \<open>\<^verbatim>\<open>FileClose\<close> (lines 213-239).\<close>

definition FileClose :: "STATE \<Rightarrow> EFI_FILE_HANDLE \<Rightarrow> (EFI_STATUS \<times> STATE) option" where
  "FileClose s This =
     (case Files s (BASE_FILE This) of
        None \<Rightarrow> None
      | Some File \<Rightarrow>
          Some (EFI_SUCCESS,
            UnmountIfLast (AddTotalRefCount (- 1)
              (if RefCount File - 1 \<le> 0
               then NtfsFreeFile (Some (BASE_FILE This))
                      (NtfsCloseFile (Some (BASE_FILE This))
                         (SetFile (BASE_FILE This) (File\<lparr>RefCount := RefCount File - 1\<rparr>) s))
               else SetFile (BASE_FILE This) (File\<lparr>RefCount := RefCount File - 1\<rparr>) s))))"

text \<open>\<^verbatim>\<open>FileDelete\<close> (lines 250-289).\<close>

definition FileDelete :: "ENV \<Rightarrow> STATE \<Rightarrow> EFI_FILE_HANDLE \<Rightarrow> (EFI_STATUS \<times> STATE) option" where
  "FileDelete E s This =
     (case Files s (BASE_FILE This) of
        None \<Rightarrow> None
      | Some File \<Rightarrow>
          if IsRoot File \<or> NtfsInode File = None then Some (EFI_ACCESS_DENIED, s)
          else if IsRoot File \<or> RefCount File - 1 > 0
          then Some (EFI_WARN_DELETE_FAILURE,
                 AddTotalRefCount (- 1)
                   (SetFile (BASE_FILE This) (File\<lparr>RefCount := RefCount File - 1\<rparr>) s))
          else if NtfsIsVolumeReadOnly (FileSystem s)
          then Some (EFI_WARN_DELETE_FAILURE,
                 AddTotalRefCount (- 1)
                   (SetFile (BASE_FILE This) (File\<lparr>RefCount := RefCount File - 1\<rparr>) s))
          else
            (case NtfsDeleteFile E (BASE_FILE This) (File\<lparr>RefCount := RefCount File - 1\<rparr>)
                    (AddTotalRefCount (- 1)
                       (SetFile (BASE_FILE This) (File\<lparr>RefCount := RefCount File - 1\<rparr>) s)) of
               (Status, s1) \<Rightarrow>
                 Some (Status, UnmountIfLast (NtfsFreeFile (Some (BASE_FILE This)) s1))))"

subsection \<open>Opening the volume: FileOpenVolume\<close>

text \<open>
  \<^verbatim>\<open>FileOpenVolume\<close> (lines 743-799). The label \<^verbatim>\<open>out\<close> closes and releases the root
  instance and unmounts the volume on every error. The handle returned is the address of
  the instance itself, which is that of its first member \<^verbatim>\<open>EfiFileRW\<close>.
\<close>

definition OpenVolumeFailed :: "nat option \<Rightarrow> STATE \<Rightarrow> STATE" where
  "OpenVolumeFailed RootFile s = NtfsUnmountVolume (NtfsFreeFile RootFile (NtfsCloseFile RootFile s))"

definition FileOpenVolume ::
  "ENV \<Rightarrow> STATE \<Rightarrow> (EFI_STATUS \<times> STATE \<times> EFI_FILE_HANDLE option) option" where
  "FileOpenVolume E s =
     (case NtfsMountVolume E s of
        (Status, s1) \<Rightarrow>
          if EFI_ERROR Status then Some (Status, OpenVolumeFailed None s1, None)
          else
            (case NtfsAllocateFile E s1 of
               (Status1, s2, None) \<Rightarrow> Some (Status1, OpenVolumeFailed None s2, None)
             | (Status1, s2, Some a) \<Rightarrow>
                 if \<not> AllocatePath E s2
                 then Some (EFI_OUT_OF_RESOURCES, OpenVolumeFailed (Some a) s2, None)
                 else
                   (case NtfsOpenFile E
                           (SetFile a (NewInstance\<lparr>Path := Some [PATH_CHAR], BaseName := 1\<rparr>) s2)
                           a of
                      None \<Rightarrow> None
                    | Some (Status2, s3, b) \<Rightarrow>
                        if EFI_ERROR Status2
                        then Some (Status2, OpenVolumeFailed (Some b) s3, None)
                        else
                          (case Files s3 b of
                             None \<Rightarrow> None
                           | Some F \<Rightarrow>
                               Some (EFI_SUCCESS,
                                 AddTotalRefCount 1
                                   (SetFile b (F\<lparr>RefCount := RefCount F + 1\<rparr>) s3),
                                 Some (EfiFileRW b))))))"

subsection \<open>Callers: sequences of operations, and a directory listing\<close>

text \<open>The operations that change the reference counts, as a caller issues them.\<close>

datatype OPERATION =
    OpenVolume
  | Open EFI_FILE_HANDLE "CHAR16 list" UINT64 UINT64
  | Close EFI_FILE_HANDLE
  | Delete EFI_FILE_HANDLE

fun Step :: "ENV \<Rightarrow> STATE \<Rightarrow> OPERATION \<Rightarrow> (EFI_STATUS \<times> STATE) option" where
  "Step E s OpenVolume = map_option (\<lambda>(Status, s', h). (Status, s')) (FileOpenVolume E s)"
| "Step E s (Open This Name Mode Attributes) =
     map_option (\<lambda>(Status, s', h). (Status, s')) (FileOpen E s This Name Mode Attributes)"
| "Step E s (Close This) = FileClose s This"
| "Step E s (Delete This) = FileDelete E s This"

text \<open>A sequence of operations: the statuses returned, in order, and the last state.\<close>

fun Run :: "ENV \<Rightarrow> STATE \<Rightarrow> OPERATION list \<Rightarrow> (EFI_STATUS list \<times> STATE) option" where
  "Run E s [] = Some ([], s)"
| "Run E s (x # xs) =
     (case Step E s x of
        None \<Rightarrow> None
      | Some (Status, s') \<Rightarrow>
          (case Run E s' xs of
             None \<Rightarrow> None
           | Some (sts, s'') \<Rightarrow> Some (Status # sts, s'')))"

text \<open>
  A caller that lists a directory: it calls \<^verbatim>\<open>FileRead\<close> on the handle with a buffer of
  \<open>Len\<close> bytes until a call returns a length of zero or fails, at most \<open>n\<close> times, and
  collects what each call returned.
\<close>

datatype LISTING_END = EndOfDirectory | Failed EFI_STATUS | MoreToRead

fun ReadEntries ::
  "nat \<Rightarrow> ENV \<Rightarrow> STATE \<Rightarrow> EFI_FILE_HANDLE \<Rightarrow> nat \<Rightarrow> BUFFER \<Rightarrow> (BUFFER list \<times> LISTING_END) option" where
  "ReadEntries 0 E s This Len Data = Some ([], MoreToRead)"
| "ReadEntries (Suc n) E s This Len Data =
     (case FileRead E s This Len Data of
        None \<Rightarrow> None
      | Some (Status, s', Len', Data') \<Rightarrow>
          if Status \<noteq> EFI_SUCCESS then Some ([], Failed Status)
          else if Len' = 0 then Some ([], EndOfDirectory)
          else
            (case ReadEntries n E s' This Len Data' of
               None \<Rightarrow> None
             | Some (ds, r) \<Rightarrow> Some (Data' # ds, r)))"

subsection \<open>A concrete volume\<close>

text \<open>
  An environment and states to run the operations on: the header sizes of the UEFI
  structures, the inode number in the low 48 bits of a reference, a path cleaner that
  merges doubled delimiters (all the cleaning the paths below need), allocations that
  succeed at the first free address among 16, 32 and 48, and an engine that knows the root
  directory (inode 5) and one file \<^verbatim>\<open>/a\<close> (inode 64).
\<close>

fun MergeDelimiters :: "CHAR16 list \<Rightarrow> CHAR16 list" where
  "MergeDelimiters (c # d # cs) =
     (if c = PATH_CHAR \<and> d = PATH_CHAR then MergeDelimiters (d # cs)
      else c # MergeDelimiters (d # cs))"
| "MergeDelimiters cs = cs"

definition DemoEntries :: "DIRENT list" where
  "DemoEntries =
     [\<lparr>EntryName = [0x2E], NameLen = 1, NameType = 0, Pos = 0, MRef = 5, DtType = 4\<rparr>,
      \<lparr>EntryName = [0x24, 0x4D], NameLen = 2, NameType = 0, Pos = 1, MRef = 0, DtType = 8\<rparr>,
      \<lparr>EntryName = [0x61], NameLen = 1, NameType = 0, Pos = 2, MRef = 64, DtType = 8\<rparr>]"

definition DemoEnv :: ENV where
  "DemoEnv =
     \<lparr>SIZE_OF_EFI_FILE_INFO = 80,
      SIZE_OF_EFI_FILE_SYSTEM_INFO = 36,
      GetInodeNumber = (\<lambda>m. m AND 0xFFFFFFFFFFFF),
      CleanPath = MergeDelimiters,
      AllocatePath = (\<lambda>s. True),
      engMount = (\<lambda>fs. EFI_SUCCESS),
      engAllocateFile =
        (\<lambda>s. (EFI_SUCCESS, if Files s 16 = None then 16 else if Files s 32 = None then 32 else 48)),
      engOpenFile =
        (\<lambda>s p. if p = [PATH_CHAR] then OpenedNew 5 True
               else if p = [PATH_CHAR, 0x61] then OpenedNew 64 False
               else OpenFailed EFI_NOT_FOUND),
      engCreateFile = (\<lambda>s p d. OpenFailed EFI_ACCESS_DENIED),
      engDeleteFile = (\<lambda>F. EFI_SUCCESS),
      engReadDirectory = (\<lambda>i. (EFI_SUCCESS, DemoEntries)),
      engGetFileInfo = (\<lambda>F m d. (EFI_SUCCESS, ZeroAttrs)),
      engReadFile = (\<lambda>F n. (EFI_SUCCESS, replicate n 0)),
      engWriteFile = (\<lambda>F bs n. (EFI_SUCCESS, n))\<rparr>"

text \<open>The volume before it is opened (read-only or not), with the label \<^verbatim>\<open>AB\<close>.\<close>

definition DemoVolume :: "bool \<Rightarrow> STATE" where
  "DemoVolume ro =
     \<lparr>FileSystem =
        \<lparr>Mounted = False, ReadOnly = ro, FreeSpace = 0,
         BlockIo = \<lparr>BlockSize = 512, LastBlock = 2047\<rparr>, BlockIo2 = None,
         NtfsVolumeLabel = Some [0x41, 0x42], TotalRefCount = 0\<rparr>,
      Files = (\<lambda>a. None)\<rparr>"

text \<open>The root directory, open \<open>n\<close> times, and the file \<^verbatim>\<open>/a\<close>, open \<open>n\<close> times.\<close>

definition DemoRoot :: "int \<Rightarrow> EFI_NTFS_FILE" where
  "DemoRoot n = \<lparr>IsDir = True, IsRoot = True, DirPos = 0, Offset = 0, Path = Some [PATH_CHAR],
     BaseName = 1, RefCount = n, NtfsInode = Some 5\<rparr>"

definition DemoFile :: "int \<Rightarrow> EFI_NTFS_FILE" where
  "DemoFile n = \<lparr>IsDir = False, IsRoot = False, DirPos = 0, Offset = 0,
     Path = Some [PATH_CHAR, 0x61], BaseName = 1, RefCount = n, NtfsInode = Some 64\<rparr>"

text \<open>The mounted volume with the root open \<open>m\<close> times at address 16 and the file
  open \<open>n\<close> times at address 32.\<close>

definition DemoState :: "bool \<Rightarrow> int \<Rightarrow> int \<Rightarrow> STATE" where
  "DemoState ro m n =
     \<lparr>FileSystem =
        \<lparr>Mounted = True, ReadOnly = ro, FreeSpace = 0,
         BlockIo = \<lparr>BlockSize = 512, LastBlock = 2047\<rparr>, BlockIo2 = None,
         NtfsVolumeLabel = Some [0x41, 0x42], TotalRefCount = m + n\<rparr>,
      Files = (\<lambda>a. if a = 16 then Some (DemoRoot m) else if a = 32 then Some (DemoFile n) else None)\<rparr>"

text \<open>
  The skip rule as the specification words it, to compare the listing of the code with:
  "enumeration yields the root entry and every entry with inode >= 16, and excludes all
  others", the root being inode 5.
\<close>

definition SpecListed :: "ENV \<Rightarrow> DIRENT \<Rightarrow> bool" where
  "SpecListed E e = (GetInodeNumber E (MRef e) = 5 \<or> 16 \<le> GetInodeNumber E (MRef e))"

text \<open>A directory of \<open>n\<close> entries whose inode numbers are \<open>0, ..., n - 1\<close>; the entry of
  inode \<open>i\<close> is named by the single code unit \<open>0x41 + i\<close>.\<close>

definition NumberedEntries :: "nat \<Rightarrow> DIRENT list" where
  "NumberedEntries n =
     map (\<lambda>i. \<lparr>EntryName = [0x41 + of_nat i], NameLen = 1, NameType = 0, Pos = int i,
                MRef = of_nat i, DtType = 8\<rparr>) [0..<n]"

section \<open>Properties\<close>

subsection \<open>Evaluation of the concrete volume\<close>

lemma DemoState_root [simp]: "Files (DemoState ro m n) 16 = Some (DemoRoot m)"
  by (simp add: DemoState_def)

lemma DemoState_file [simp]: "Files (DemoState ro m n) 32 = Some (DemoFile n)"
  by (simp add: DemoState_def)

lemma DemoState_ReadOnly [simp]: "NtfsIsVolumeReadOnly (FileSystem (DemoState ro m n)) = ro"
  by (simp add: DemoState_def NtfsIsVolumeReadOnly_def)

lemma DemoRoot_fields [simp]:
  "IsDir (DemoRoot m)" "IsRoot (DemoRoot m)" "NtfsInode (DemoRoot m) = Some 5"
  "RefCount (DemoRoot m) = m" "Path (DemoRoot m) = Some [PATH_CHAR]" "DirPos (DemoRoot m) = 0"
  by (simp_all add: DemoRoot_def)

lemma DemoFile_fields [simp]:
  "\<not> IsDir (DemoFile n)" "\<not> IsRoot (DemoFile n)" "NtfsInode (DemoFile n) = Some 64"
  "RefCount (DemoFile n) = n" "Offset (DemoFile n) = 0"
  by (simp_all add: DemoFile_def)

text \<open>
  The states \<open>DemoState ro 1 1\<close> are reached by the driver itself: opening the volume
  and then the file \<^verbatim>\<open>/a\<close> for reading, from the volume before it is opened, gives the
  volume record and the two instances of \<open>DemoState ro 1 1\<close>.
\<close>

lemma DemoState_reached:
  "map_option (\<lambda>(sts, s). (sts, FileSystem s, Files s 16, Files s 32, Files s 48))
     (Run DemoEnv (DemoVolume False) [OpenVolume, Open (EfiFileRW 16) [0x61] EFI_FILE_MODE_READ 0])
     = Some ([EFI_SUCCESS, EFI_SUCCESS], FileSystem (DemoState False 1 1),
             Some (DemoRoot 1), Some (DemoFile 1), None)"
  "map_option (\<lambda>(sts, s). (sts, FileSystem s, Files s 16, Files s 32, Files s 48))
     (Run DemoEnv (DemoVolume True) [OpenVolume, Open (EfiFileRW 16) [0x61] EFI_FILE_MODE_READ 0])
     = Some ([EFI_SUCCESS, EFI_SUCCESS], FileSystem (DemoState True 1 1),
             Some (DemoRoot 1), Some (DemoFile 1), None)"
  by code_simp+

subsection \<open>FileWrite\<close>

text \<open>
  C5. \<^verbatim>\<open>FileWrite\<close> on a live handle tests, in this order: the underlying object is gone
  (DeviceError); the handle value is the read-only one (AccessDenied, whatever the state of
  the instance, so also when the same instance is open through its read-write value); the
  volume is read-only (WriteProtected); the instance is a directory (Unsupported). Each
  failure leaves the state and the length as they were. Otherwise the bytes go to the
  engine's write: its status is returned, and a write that succeeds advances the offset by
  the number of bytes written and returns that number in the length.
\<close>

theorem FileWrite_outcomes:
  assumes "Files s (BASE_FILE This) = Some File"
  shows "(NtfsInode File = None \<longrightarrow> FileWrite E s This Len Data = Some (EFI_DEVICE_ERROR, s, Len))
    \<and> (NtfsInode File \<noteq> None \<and> RO_ACCESS This \<longrightarrow>
         FileWrite E s This Len Data = Some (EFI_ACCESS_DENIED, s, Len))
    \<and> (NtfsInode File \<noteq> None \<and> \<not> RO_ACCESS This \<and> NtfsIsVolumeReadOnly (FileSystem s) \<longrightarrow>
         FileWrite E s This Len Data = Some (EFI_WRITE_PROTECTED, s, Len))
    \<and> (NtfsInode File \<noteq> None \<and> \<not> RO_ACCESS This \<and> \<not> NtfsIsVolumeReadOnly (FileSystem s)
         \<and> IsDir File \<longrightarrow>
         FileWrite E s This Len Data = Some (EFI_UNSUPPORTED, s, Len))
    \<and> (NtfsInode File \<noteq> None \<and> \<not> RO_ACCESS This \<and> \<not> NtfsIsVolumeReadOnly (FileSystem s)
         \<and> \<not> IsDir File \<longrightarrow>
         (\<forall>st n. engWriteFile E File Data Len = (st, n) \<longrightarrow>
            FileWrite E s This Len Data =
              Some (if EFI_ERROR st then (st, s, Len)
                    else (st, SetFile (BASE_FILE This) (File\<lparr>Offset := Offset File + int n\<rparr>) s,
                          n))))"
  using assms by (auto simp: FileWrite_def NtfsWriteFile_def SetFile_def)

text \<open>
  The file \<^verbatim>\<open>/a\<close> open twice on the writable volume: a write of three bytes through the
  read-only value is denied, the same write through the read-write value of the same
  instance goes to the engine and moves the offset from 0 to 3. The same write is refused
  with WriteProtected on the read-only volume, with Unsupported on the root directory, and
  with DeviceError once the engine node of the file is gone.
\<close>

theorem FileWrite_outcomes_witness:
  "FileWrite DemoEnv (DemoState False 1 2) (EfiFileRO 32) 3 [1, 2, 3]
     = Some (EFI_ACCESS_DENIED, DemoState False 1 2, 3)
   \<and> FileWrite DemoEnv (DemoState False 1 2) (EfiFileRW 32) 3 [1, 2, 3]
     = Some (EFI_SUCCESS, SetFile 32 ((DemoFile 2)\<lparr>Offset := 3\<rparr>) (DemoState False 1 2), 3)
   \<and> FileWrite DemoEnv (DemoState True 1 2) (EfiFileRW 32) 3 [1, 2, 3]
     = Some (EFI_WRITE_PROTECTED, DemoState True 1 2, 3)
   \<and> FileWrite DemoEnv (DemoState False 1 2) (EfiFileRW 16) 3 [1, 2, 3]
     = Some (EFI_UNSUPPORTED, DemoState False 1 2, 3)
   \<and> FileWrite DemoEnv (SetFile 32 ((DemoFile 2)\<lparr>NtfsInode := None\<rparr>) (DemoState False 1 2))
         (EfiFileRW 32) 3 [1, 2, 3]
     = Some (EFI_DEVICE_ERROR,
             SetFile 32 ((DemoFile 2)\<lparr>NtfsInode := None\<rparr>) (DemoState False 1 2), 3)"
proof -
  have ro: "Files (DemoState False 1 2) (BASE_FILE (EfiFileRO 32)) = Some (DemoFile 2)"
    and rw: "Files (DemoState False 1 2) (BASE_FILE (EfiFileRW 32)) = Some (DemoFile 2)"
    and wp: "Files (DemoState True 1 2) (BASE_FILE (EfiFileRW 32)) = Some (DemoFile 2)"
    and dir: "Files (DemoState False 1 2) (BASE_FILE (EfiFileRW 16)) = Some (DemoRoot 1)"
    by simp_all
  have gone: "Files (SetFile 32 ((DemoFile 2)\<lparr>NtfsInode := None\<rparr>) (DemoState False 1 2))
                (BASE_FILE (EfiFileRW 32)) = Some ((DemoFile 2)\<lparr>NtfsInode := None\<rparr>)"
    by (simp add: SetFile_def)
  have w: "engWriteFile DemoEnv (DemoFile 2) [1, 2, 3] 3 = (EFI_SUCCESS, 3)"
    by (simp add: DemoEnv_def)
  from FileWrite_outcomes [OF ro, of DemoEnv 3 "[1, 2, 3]"]
  have "FileWrite DemoEnv (DemoState False 1 2) (EfiFileRO 32) 3 [1, 2, 3]
          = Some (EFI_ACCESS_DENIED, DemoState False 1 2, 3)"
    by simp
  moreover from FileWrite_outcomes [OF rw, of DemoEnv 3 "[1, 2, 3]"] w
  have "FileWrite DemoEnv (DemoState False 1 2) (EfiFileRW 32) 3 [1, 2, 3]
          = Some (EFI_SUCCESS, SetFile 32 ((DemoFile 2)\<lparr>Offset := 3\<rparr>) (DemoState False 1 2), 3)"
    by simp
  moreover from FileWrite_outcomes [OF wp, of DemoEnv 3 "[1, 2, 3]"]
  have "FileWrite DemoEnv (DemoState True 1 2) (EfiFileRW 32) 3 [1, 2, 3]
          = Some (EFI_WRITE_PROTECTED, DemoState True 1 2, 3)"
    by simp
  moreover from FileWrite_outcomes [OF dir, of DemoEnv 3 "[1, 2, 3]"]
  have "FileWrite DemoEnv (DemoState False 1 2) (EfiFileRW 16) 3 [1, 2, 3]
          = Some (EFI_UNSUPPORTED, DemoState False 1 2, 3)"
    by simp
  moreover from FileWrite_outcomes [OF gone, of DemoEnv 3 "[1, 2, 3]"]
  have "FileWrite DemoEnv (SetFile 32 ((DemoFile 2)\<lparr>NtfsInode := None\<rparr>) (DemoState False 1 2))
          (EfiFileRW 32) 3 [1, 2, 3]
        = Some (EFI_DEVICE_ERROR,
                SetFile 32 ((DemoFile 2)\<lparr>NtfsInode := None\<rparr>) (DemoState False 1 2), 3)"
    by simp
  ultimately show ?thesis by simp
qed

subsection \<open>FileRead on a directory: the end of the enumeration and its errors\<close>

text \<open>
  C8. For a directory handle whose object exists: when the enumeration position is at or
  past the last entry, or the engine itself reports the end of the directory, \<^verbatim>\<open>FileRead\<close>
  returns success and a length of zero; \<^verbatim>\<open>FileRead\<close> never returns the end-of-file
  status; every other error of the enumeration (from the engine's directory read, or left
  in \<^verbatim>\<open>errno\<close> by the hook) is returned as it is, the length unchanged.
\<close>

theorem FileRead_end_of_directory:
  assumes "Files s (BASE_FILE This) = Some File" and "IsDir File" and "NtfsInode File \<noteq> None"
  shows "(\<forall>st ents. engReadDirectory E (NtfsInode File) = (st, ents) \<and> \<not> EFI_ERROR st
            \<and> length ents \<le> nat (DirPos File) \<longrightarrow>
          (\<exists>s' Data'. FileRead E s This Len Data = Some (EFI_SUCCESS, s', 0, Data')))
    \<and> (\<forall>ents. engReadDirectory E (NtfsInode File) = (EFI_END_OF_FILE, ents) \<longrightarrow>
          (\<exists>s' Data'. FileRead E s This Len Data = Some (EFI_SUCCESS, s', 0, Data')))
    \<and> (\<forall>st s' Len' Data'. FileRead E s This Len Data = Some (st, s', Len', Data') \<longrightarrow>
          st \<noteq> EFI_END_OF_FILE)
    \<and> (\<forall>st File' HookData.
          NtfsReadDirectory E File (DirHook E) \<lparr>Parent = File, Info = (INFO_OF Data)\<lparr>Size := Len\<rparr>\<rparr>
            = Some (st, File', HookData) \<and> EFI_ERROR st \<and> st \<noteq> EFI_END_OF_FILE \<longrightarrow>
          FileRead E s This Len Data
            = Some (st, SetFile (BASE_FILE This) File' s, Len, FileInfo (Info HookData)))
    \<and> (\<forall>st ents. engReadDirectory E (NtfsInode File) = (st, ents) \<and> EFI_ERROR st
            \<and> st \<noteq> EFI_END_OF_FILE \<longrightarrow>
          (\<exists>s' Data'. FileRead E s This Len Data = Some (st, s', Len, Data')))"
  using assms
  by (intro conjI allI impI)
     (auto simp: FileRead_def FileReadDir_def NtfsReadDirectory_def SetFile_def
           split: option.splits prod.splits if_splits)

text \<open>The root directory of the concrete volume (three entries) with the position after
  the third entry; and the same directory at position 0 when the engine's directory read
  fails with a device error.\<close>

theorem FileRead_end_of_directory_witness:
  "(\<exists>s' Data'. FileRead DemoEnv (SetFile 16 ((DemoRoot 1)\<lparr>DirPos := 3\<rparr>) (DemoState False 1 0))
        (EfiFileRW 16) 200 (Bytes []) = Some (EFI_SUCCESS, s', 0, Data'))
   \<and> (\<exists>s' Data'. FileRead (DemoEnv\<lparr>engReadDirectory := (\<lambda>i. (EFI_DEVICE_ERROR, []))\<rparr>)
        (DemoState False 1 0) (EfiFileRW 16) 200 (Bytes []) = Some (EFI_DEVICE_ERROR, s', 200, Data'))"
proof -
  let ?F = "(DemoRoot 1)\<lparr>DirPos := 3\<rparr>"
  have a: "Files (SetFile 16 ?F (DemoState False 1 0)) (BASE_FILE (EfiFileRW 16)) = Some ?F"
    by (simp add: SetFile_def)
  have b: "IsDir ?F" and c: "NtfsInode ?F \<noteq> None"
    by simp_all
  have d: "engReadDirectory DemoEnv (NtfsInode ?F) = (EFI_SUCCESS, DemoEntries)
             \<and> \<not> EFI_ERROR EFI_SUCCESS \<and> length DemoEntries \<le> nat (DirPos ?F)"
    by (simp add: DemoEnv_def DemoEntries_def)
  note t = FileRead_end_of_directory [OF a b c, of DemoEnv 200 "Bytes []"]
  have first: "\<exists>s' Data'. FileRead DemoEnv (SetFile 16 ?F (DemoState False 1 0))
        (EfiFileRW 16) 200 (Bytes []) = Some (EFI_SUCCESS, s', 0, Data')"
    by (rule t [THEN conjunct1, rule_format, OF d])
  let ?E = "DemoEnv\<lparr>engReadDirectory := (\<lambda>i. (EFI_DEVICE_ERROR, []))\<rparr>"
  have a': "Files (DemoState False 1 0) (BASE_FILE (EfiFileRW 16)) = Some (DemoRoot 1)"
    by simp
  have b': "IsDir (DemoRoot 1)" and c': "NtfsInode (DemoRoot 1) \<noteq> None"
    by simp_all
  have d': "engReadDirectory ?E (NtfsInode (DemoRoot 1)) = (EFI_DEVICE_ERROR, [])
             \<and> EFI_ERROR EFI_DEVICE_ERROR \<and> EFI_DEVICE_ERROR \<noteq> EFI_END_OF_FILE"
    by simp
  note t' = FileRead_end_of_directory [OF a' b' c', of ?E 200 "Bytes []"]
  have "\<exists>s' Data'. FileRead ?E (DemoState False 1 0) (EfiFileRW 16) 200 (Bytes [])
          = Some (EFI_DEVICE_ERROR, s', 200, Data')"
    by (rule t' [THEN conjunct2, THEN conjunct2, THEN conjunct2, THEN conjunct2, rule_format, OF d'])
  with first show ?thesis by (rule conjI)
qed

subsection \<open>FileGetInfo\<close>

lemma LabelSize_ge_2: "2 \<le> LabelSize fs"
  by (simp add: LabelSize_def SafeStrSize_def split: option.splits)

lemma DemoState_LabelSize [simp]: "LabelSize (FileSystem (DemoState ro m n)) = 6"
  by (simp add: LabelSize_def SafeStrSize_def DemoState_def)

text \<open>
  The two kinds that compare the length with a required size the right way round: for the
  file information and the file-system information, a buffer shorter than the required size
  gets BufferTooSmall, the required size in \<^verbatim>\<open>*Len\<close> and an untouched buffer; a buffer of
  exactly the required size is accepted (the file kind then returns the status of the
  engine's metadata query).
\<close>

lemma FileGetInfo_sized_kinds:
  assumes "Files s (BASE_FILE This) = Some File" and "NtfsInode File \<noteq> None"
    and "BaseNameStr File = Some base"
  shows "(Len < SIZE_OF_EFI_FILE_INFO E + SafeStrSize base \<longrightarrow>
            FileGetInfo E s This gEfiFileInfoGuid Len Data
              = Some (EFI_BUFFER_TOO_SMALL, SIZE_OF_EFI_FILE_INFO E + SafeStrSize base, Data))
    \<and> (\<not> EFI_ERROR (fst (engGetFileInfo E File 0 (IsDir File))) \<longrightarrow>
          (\<exists>Data'. FileGetInfo E s This gEfiFileInfoGuid
                      (SIZE_OF_EFI_FILE_INFO E + SafeStrSize base) Data
              = Some (EFI_SUCCESS, SIZE_OF_EFI_FILE_INFO E + SafeStrSize base, Data')))
    \<and> (Len < SIZE_OF_EFI_FILE_SYSTEM_INFO E + LabelSize (FileSystem s) \<longrightarrow>
            FileGetInfo E s This gEfiFileSystemInfoGuid Len Data
              = Some (EFI_BUFFER_TOO_SMALL,
                   SIZE_OF_EFI_FILE_SYSTEM_INFO E + LabelSize (FileSystem s), Data))
    \<and> (\<exists>Data'. FileGetInfo E s This gEfiFileSystemInfoGuid
                  (SIZE_OF_EFI_FILE_SYSTEM_INFO E + LabelSize (FileSystem s)) Data
          = Some (EFI_SUCCESS, SIZE_OF_EFI_FILE_SYSTEM_INFO E + LabelSize (FileSystem s), Data'))"
  using assms
  by (auto simp: FileGetInfo_def NtfsGetFileInfo_def SafeStrSize_def Let_def add.commute
           split: prod.splits)

text \<open>
  C9. The volume-label kind does not follow the protocol of the other two kinds. On the
  root of the concrete volume the label \<^verbatim>\<open>AB\<close> needs 6 bytes. A buffer of 4 bytes is
  accepted: the call returns success and a length of 6, having copied the 6 bytes of the
  label into the 4-byte buffer. A buffer of 1 byte is refused with BufferTooSmall, but the
  length is left at 1, not set to the required 6.
\<close>

theorem FileGetInfo_label_undersized:
  "LabelSize (FileSystem (DemoState False 1 0)) = 6
   \<and> FileGetInfo DemoEnv (DemoState False 1 0) (EfiFileRW 16)
        gEfiFileSystemVolumeLabelInfoIdGuid 4 (Bytes [0, 0, 0, 0])
      = Some (EFI_SUCCESS, 6, VolumeLabelInfo [0x41, 0x42])
   \<and> FileGetInfo DemoEnv (DemoState False 1 0) (EfiFileRW 16)
        gEfiFileSystemVolumeLabelInfoIdGuid 1 (Bytes [0])
      = Some (EFI_BUFFER_TOO_SMALL, 1, Bytes [0])"
  by (simp add: FileGetInfo_def) (simp add: DemoState_def)

text \<open>
  C10. The volume-label kind on the root handle (its object existing): the call succeeds
  exactly when the length is at least 2 bytes (one code unit) and at most the size of
  the label, and then returns that size and the label; every length above the size of
  the label gets BufferTooSmall, the size of the label in \<^verbatim>\<open>*Len\<close> and an untouched buffer.
\<close>

theorem FileGetInfo_volume_label:
  assumes "Files s (BASE_FILE This) = Some File" and "IsRoot File" and "NtfsInode File \<noteq> None"
  shows "((\<exists>Len' Data'. FileGetInfo E s This gEfiFileSystemVolumeLabelInfoIdGuid Len Data
              = Some (EFI_SUCCESS, Len', Data'))
          \<longleftrightarrow> 2 \<le> Len \<and> Len \<le> LabelSize (FileSystem s))
    \<and> (2 \<le> Len \<and> Len \<le> LabelSize (FileSystem s) \<longrightarrow>
          FileGetInfo E s This gEfiFileSystemVolumeLabelInfoIdGuid Len Data
            = Some (EFI_SUCCESS, LabelSize (FileSystem s),
                VolumeLabelInfo (case NtfsVolumeLabel (FileSystem s) of None \<Rightarrow> [] | Some l \<Rightarrow> l)))
    \<and> (LabelSize (FileSystem s) < Len \<longrightarrow>
          FileGetInfo E s This gEfiFileSystemVolumeLabelInfoIdGuid Len Data
            = Some (EFI_BUFFER_TOO_SMALL, LabelSize (FileSystem s), Data))"
  using assms LabelSize_ge_2 [of "FileSystem s"]
  by (auto simp: FileGetInfo_def)

theorem FileGetInfo_volume_label_witness:
  "FileGetInfo DemoEnv (DemoState False 1 0) (EfiFileRW 16)
        gEfiFileSystemVolumeLabelInfoIdGuid 6 (Bytes [0, 0, 0, 0, 0, 0])
      = Some (EFI_SUCCESS, 6, VolumeLabelInfo [0x41, 0x42])
   \<and> FileGetInfo DemoEnv (DemoState False 1 0) (EfiFileRW 16)
        gEfiFileSystemVolumeLabelInfoIdGuid 8 (Bytes [0, 0, 0, 0, 0, 0, 0, 0])
      = Some (EFI_BUFFER_TOO_SMALL, 6, Bytes [0, 0, 0, 0, 0, 0, 0, 0])"
proof -
  have a: "Files (DemoState False 1 0) (BASE_FILE (EfiFileRW 16)) = Some (DemoRoot 1)"
    by simp
  have b: "IsRoot (DemoRoot 1)" and c: "NtfsInode (DemoRoot 1) \<noteq> None"
    by simp_all
  have l: "NtfsVolumeLabel (FileSystem (DemoState False 1 0)) = Some [0x41, 0x42]"
    by (simp add: DemoState_def)
  note t = FileGetInfo_volume_label [OF a b c, of DemoEnv]
  have "FileGetInfo DemoEnv (DemoState False 1 0) (EfiFileRW 16)
        gEfiFileSystemVolumeLabelInfoIdGuid 6 (Bytes [0, 0, 0, 0, 0, 0])
      = Some (EFI_SUCCESS, 6, VolumeLabelInfo [0x41, 0x42])"
    using t [of 6 "Bytes [0, 0, 0, 0, 0, 0]", THEN conjunct2, THEN conjunct1] l by simp
  moreover have "FileGetInfo DemoEnv (DemoState False 1 0) (EfiFileRW 16)
        gEfiFileSystemVolumeLabelInfoIdGuid 8 (Bytes [0, 0, 0, 0, 0, 0, 0, 0])
      = Some (EFI_BUFFER_TOO_SMALL, 6, Bytes [0, 0, 0, 0, 0, 0, 0, 0])"
    using t [of 8 "Bytes [0, 0, 0, 0, 0, 0, 0, 0]", THEN conjunct2, THEN conjunct2] by simp
  ultimately show ?thesis by (rule conjI)
qed

subsection \<open>FileOpen: modes\<close>

lemma mode_bits [simp]:
  "EFI_FILE_MODE_READ AND EFI_FILE_MODE_WRITE = 0"
  "EFI_FILE_MODE_READ AND EFI_FILE_MODE_CREATE = 0"
  "(EFI_FILE_MODE_READ OR EFI_FILE_MODE_WRITE) AND EFI_FILE_MODE_WRITE \<noteq> 0"
  "(EFI_FILE_MODE_READ OR EFI_FILE_MODE_WRITE) AND EFI_FILE_MODE_CREATE = 0"
  "(EFI_FILE_MODE_CREATE OR EFI_FILE_MODE_READ OR EFI_FILE_MODE_WRITE) AND EFI_FILE_MODE_CREATE \<noteq> 0"
  "(EFI_FILE_MODE_CREATE OR EFI_FILE_MODE_READ OR EFI_FILE_MODE_WRITE) AND EFI_FILE_MODE_WRITE \<noteq> 0"
  "EFI_FILE_MODE_READ \<noteq> (EFI_FILE_MODE_READ OR EFI_FILE_MODE_WRITE)"
  "(EFI_FILE_MODE_READ OR EFI_FILE_MODE_WRITE) \<noteq> EFI_FILE_MODE_READ"
  "(EFI_FILE_MODE_CREATE OR EFI_FILE_MODE_READ OR EFI_FILE_MODE_WRITE) \<noteq> EFI_FILE_MODE_READ"
  "EFI_FILE_MODE_READ \<noteq> 0" "EFI_FILE_MODE_WRITE \<noteq> 0" "EFI_FILE_MODE_CREATE \<noteq> 0"
  "EFI_FILE_MODE_WRITE AND EFI_FILE_MODE_READ = 0"
  "EFI_FILE_MODE_CREATE AND EFI_FILE_MODE_READ = 0"
  "EFI_FILE_MODE_WRITE AND EFI_FILE_MODE_CREATE = 0"
  "EFI_FILE_MODE_CREATE AND EFI_FILE_MODE_WRITE = 0"
  by (simp_all add: EFI_FILE_MODE_READ_def EFI_FILE_MODE_WRITE_def EFI_FILE_MODE_CREATE_def)

lemma names [simp]: "DOT \<noteq> []" "DOTDOT \<noteq> []" "DOT \<noteq> DOTDOT" "DOTDOT \<noteq> DOT"
  by (simp_all add: DOT_def DOTDOT_def)

text \<open>
  C6, as the code has it. An open with a mode that is none of Read, Read+Write and
  Create+Read+Write fails and changes nothing, but the mode is tested fourth: a read-only
  volume answers WriteProtected (every such mode differs from Read); on a writable volume
  the name \<^verbatim>\<open>..\<close> on the root handle and a handle that is not a directory answer
  NotFound; in every remaining case the answer is InvalidParameter.
\<close>

theorem FileOpen_invalid_mode:
  assumes "Files s (BASE_FILE This) = Some File"
    and "Mode \<noteq> EFI_FILE_MODE_READ"
    and "Mode \<noteq> (EFI_FILE_MODE_READ OR EFI_FILE_MODE_WRITE)"
    and "Mode \<noteq> (EFI_FILE_MODE_CREATE OR EFI_FILE_MODE_READ OR EFI_FILE_MODE_WRITE)"
  shows "(NtfsIsVolumeReadOnly (FileSystem s) \<longrightarrow>
            FileOpen E s This Name Mode Attributes = Some (EFI_WRITE_PROTECTED, s, None))
    \<and> (\<not> NtfsIsVolumeReadOnly (FileSystem s) \<and> ((Name = DOTDOT \<and> IsRoot File) \<or> \<not> IsDir File) \<longrightarrow>
            FileOpen E s This Name Mode Attributes = Some (EFI_NOT_FOUND, s, None))
    \<and> (\<not> NtfsIsVolumeReadOnly (FileSystem s) \<and> \<not> (Name = DOTDOT \<and> IsRoot File) \<and> IsDir File \<longrightarrow>
            FileOpen E s This Name Mode Attributes = Some (EFI_INVALID_PARAMETER, s, None))"
  using assms by (auto simp: FileOpen_def ValidMode_def)

text \<open>
  Write alone (mode 2): on the root directory of the writable volume it is an invalid
  parameter, on the read-only volume it is refused as write-protected, and through the
  handle of the file \<^verbatim>\<open>/a\<close> nothing is found.
\<close>

theorem FileOpen_invalid_mode_witness:
  "FileOpen DemoEnv (DemoState False 1 1) (EfiFileRW 16) [0x61] EFI_FILE_MODE_WRITE 0
     = Some (EFI_INVALID_PARAMETER, DemoState False 1 1, None)
   \<and> FileOpen DemoEnv (DemoState True 1 1) (EfiFileRW 16) [0x61] EFI_FILE_MODE_WRITE 0
     = Some (EFI_WRITE_PROTECTED, DemoState True 1 1, None)
   \<and> FileOpen DemoEnv (DemoState False 1 1) (EfiFileRW 32) [0x61] EFI_FILE_MODE_WRITE 0
     = Some (EFI_NOT_FOUND, DemoState False 1 1, None)"
proof -
  have a: "Files (DemoState False 1 1) (BASE_FILE (EfiFileRW 16)) = Some (DemoRoot 1)"
    and b: "Files (DemoState True 1 1) (BASE_FILE (EfiFileRW 16)) = Some (DemoRoot 1)"
    and c: "Files (DemoState False 1 1) (BASE_FILE (EfiFileRW 32)) = Some (DemoFile 1)"
    by simp_all
  have m: "EFI_FILE_MODE_WRITE \<noteq> EFI_FILE_MODE_READ"
    "EFI_FILE_MODE_WRITE \<noteq> (EFI_FILE_MODE_READ OR EFI_FILE_MODE_WRITE)"
    "EFI_FILE_MODE_WRITE \<noteq> (EFI_FILE_MODE_CREATE OR EFI_FILE_MODE_READ OR EFI_FILE_MODE_WRITE)"
    by (simp_all add: EFI_FILE_MODE_READ_def EFI_FILE_MODE_WRITE_def EFI_FILE_MODE_CREATE_def)
  have n: "[0x61] \<noteq> DOTDOT"
    by (simp add: DOTDOT_def)
  from FileOpen_invalid_mode [OF a m, of DemoEnv "[0x61]" 0, THEN conjunct2, THEN conjunct2] n
  have "FileOpen DemoEnv (DemoState False 1 1) (EfiFileRW 16) [0x61] EFI_FILE_MODE_WRITE 0
          = Some (EFI_INVALID_PARAMETER, DemoState False 1 1, None)"
    by simp
  moreover from FileOpen_invalid_mode [OF b m, of DemoEnv "[0x61]" 0, THEN conjunct1]
  have "FileOpen DemoEnv (DemoState True 1 1) (EfiFileRW 16) [0x61] EFI_FILE_MODE_WRITE 0
          = Some (EFI_WRITE_PROTECTED, DemoState True 1 1, None)"
    by simp
  moreover from FileOpen_invalid_mode [OF c m, of DemoEnv "[0x61]" 0, THEN conjunct2, THEN conjunct1]
  have "FileOpen DemoEnv (DemoState False 1 1) (EfiFileRW 32) [0x61] EFI_FILE_MODE_WRITE 0
          = Some (EFI_NOT_FOUND, DemoState False 1 1, None)"
    by simp
  ultimately show ?thesis by simp
qed

text \<open>
  C6 as the specification states it fails: Write alone is not a valid mode, yet on the
  read-only volume the open returns WriteProtected, and through the handle of the file
  \<^verbatim>\<open>/a\<close> (not a directory) it returns NotFound.
\<close>

theorem FileOpen_invalid_mode_counterexample:
  "\<not> ValidMode EFI_FILE_MODE_WRITE
   \<and> FileOpen DemoEnv (DemoState True 1 0) (EfiFileRW 16) [0x61] EFI_FILE_MODE_WRITE 0
       = Some (EFI_WRITE_PROTECTED, DemoState True 1 0, None)
   \<and> FileOpen DemoEnv (DemoState False 1 1) (EfiFileRO 32) [0x61] EFI_FILE_MODE_WRITE 0
       = Some (EFI_NOT_FOUND, DemoState False 1 1, None)"
  by (simp add: FileOpen_def ValidMode_def)
     (simp add: EFI_FILE_MODE_READ_def EFI_FILE_MODE_WRITE_def EFI_FILE_MODE_CREATE_def)

subsection \<open>FileOpen: reopening the handle itself\<close>

text \<open>
  C4, as the code has it. Through a directory handle, an open of the name \<^verbatim>\<open>""\<close> or
  \<^verbatim>\<open>"."\<close> with mode Read, or with mode Read+Write on a writable volume, succeeds without
  allocating anything: the set of instances is the same, the instance of the handle is the
  same but for its reference count, which is one more, the total count of the volume is one
  more, and the handle returned is a value of the same instance, the read-only value
  exactly when the mode has no write bit.
\<close>

theorem FileOpen_reopen:
  assumes "Files s (BASE_FILE This) = Some File" and "IsDir File"
    and "Name = [] \<or> Name = DOT"
    and "Mode = EFI_FILE_MODE_READ
         \<or> (Mode = (EFI_FILE_MODE_READ OR EFI_FILE_MODE_WRITE) \<and> \<not> NtfsIsVolumeReadOnly (FileSystem s))"
  shows "\<exists>s' New. FileOpen E s This Name Mode Attributes = Some (EFI_SUCCESS, s', Some New)
      \<and> Files s' = (Files s)(BASE_FILE This \<mapsto> File\<lparr>RefCount := RefCount File + 1\<rparr>)
      \<and> dom (Files s') = dom (Files s)
      \<and> FileSystem s' = (FileSystem s)\<lparr>TotalRefCount := TotalRefCount (FileSystem s) + 1\<rparr>
      \<and> BASE_FILE New = BASE_FILE This
      \<and> RO_ACCESS New = (Mode AND EFI_FILE_MODE_WRITE = 0)
      \<and> New = (if Mode = EFI_FILE_MODE_READ then EfiFileRO (BASE_FILE This)
                else EfiFileRW (BASE_FILE This))"
  using assms
  by (auto simp: FileOpen_def ValidMode_def Reference_def HandleFor_def SetFile_def
                 AddTotalRefCount_def DOT_def DOTDOT_def EFI_FILE_MODE_READ_def
                 EFI_FILE_MODE_WRITE_def EFI_FILE_MODE_CREATE_def)

text \<open>The root directory of the writable volume, open once, reopened read-write.\<close>

theorem FileOpen_reopen_witness:
  "\<exists>s'. FileOpen DemoEnv (DemoState False 1 0) (EfiFileRW 16) DOT
          (EFI_FILE_MODE_READ OR EFI_FILE_MODE_WRITE) 0
        = Some (EFI_SUCCESS, s', Some (EfiFileRW 16))
      \<and> Files s' 16 = Some (DemoRoot 2)
      \<and> TotalRefCount (FileSystem s') = 2"
proof -
  have a: "Files (DemoState False 1 0) (BASE_FILE (EfiFileRW 16)) = Some (DemoRoot 1)"
    by simp
  have b: "IsDir (DemoRoot 1)"
    by simp
  have c: "DOT = [] \<or> DOT = DOT"
    by simp
  have d: "EFI_FILE_MODE_READ OR EFI_FILE_MODE_WRITE = EFI_FILE_MODE_READ
        \<or> (EFI_FILE_MODE_READ OR EFI_FILE_MODE_WRITE = EFI_FILE_MODE_READ OR EFI_FILE_MODE_WRITE
           \<and> \<not> NtfsIsVolumeReadOnly (FileSystem (DemoState False 1 0)))"
    by simp
  from FileOpen_reopen [OF a b c d, of DemoEnv 0]
  obtain s' New where
    r: "FileOpen DemoEnv (DemoState False 1 0) (EfiFileRW 16) DOT
          (EFI_FILE_MODE_READ OR EFI_FILE_MODE_WRITE) 0 = Some (EFI_SUCCESS, s', Some New)"
    and f: "Files s' = (Files (DemoState False 1 0))
              (BASE_FILE (EfiFileRW 16) \<mapsto> (DemoRoot 1)\<lparr>RefCount := RefCount (DemoRoot 1) + 1\<rparr>)"
    and t: "FileSystem s' = (FileSystem (DemoState False 1 0))
              \<lparr>TotalRefCount := TotalRefCount (FileSystem (DemoState False 1 0)) + 1\<rparr>"
    and n: "New = (if EFI_FILE_MODE_READ OR EFI_FILE_MODE_WRITE = EFI_FILE_MODE_READ
                   then EfiFileRO (BASE_FILE (EfiFileRW 16))
                   else EfiFileRW (BASE_FILE (EfiFileRW 16)))"
    by blast
  from n have "New = EfiFileRW 16"
    by simp
  moreover from f have "Files s' 16 = Some (DemoRoot 2)"
    by (simp add: DemoRoot_def)
  moreover from t have "TotalRefCount (FileSystem s') = 2"
    by (simp add: DemoState_def)
  ultimately show ?thesis using r by blast
qed

text \<open>
  C4 as the specification states it fails on a directory handle. On the root directory of
  the writable volume, the name \<^verbatim>\<open>"."\<close> with mode Create+Read+Write is refused with
  AccessDenied; on the root directory of the read-only volume, the name \<^verbatim>\<open>"."\<close> with
  mode Read+Write is refused with WriteProtected. Neither call changes the state.
\<close>

theorem FileOpen_reopen_counterexample:
  "IsDir (DemoRoot 1)
   \<and> FileOpen DemoEnv (DemoState False 1 0) (EfiFileRW 16) DOT
        (EFI_FILE_MODE_CREATE OR EFI_FILE_MODE_READ OR EFI_FILE_MODE_WRITE) 0
       = Some (EFI_ACCESS_DENIED, DemoState False 1 0, None)
   \<and> FileOpen DemoEnv (DemoState True 1 0) (EfiFileRW 16) DOT
        (EFI_FILE_MODE_READ OR EFI_FILE_MODE_WRITE) 0
       = Some (EFI_WRITE_PROTECTED, DemoState True 1 0, None)"
  by (simp add: FileOpen_def ValidMode_def DOT_def DOTDOT_def EFI_FILE_MODE_READ_def
        EFI_FILE_MODE_WRITE_def EFI_FILE_MODE_CREATE_def)

subsection \<open>FileDelete\<close>

text \<open>
  What \<^verbatim>\<open>FileDelete\<close> returns when it goes as far as the engine: on the last reference
  to an instance that is not the root and whose object exists, on a writable volume, the
  status is the one \<^verbatim>\<open>NtfsDeleteFile\<close> answers, whatever it is, and the instance is
  destroyed.
\<close>

lemma FileDelete_last_reference:
  assumes "Files s (BASE_FILE This) = Some File" and "\<not> IsRoot File"
    and "NtfsInode File \<noteq> None" and "RefCount File = 1"
    and "\<not> NtfsIsVolumeReadOnly (FileSystem s)"
  shows "\<exists>s'. FileDelete E s This = Some (engDeleteFile E (File\<lparr>RefCount := 0\<rparr>), s')
           \<and> Files s' (BASE_FILE This) = None
           \<and> TotalRefCount (FileSystem s') = TotalRefCount (FileSystem s) - 1"
  using assms
  by (auto simp: FileDelete_def NtfsDeleteFile_def NtfsFreeFile_def SetFile_def
        AddTotalRefCount_def UnmountIfLast_def NtfsUnmountVolume_def NtfsIsVolumeReadOnly_def)



subsection \<open>The reference counts and the mount state\<close>

text \<open>
  What \<^verbatim>\<open>FileClose\<close> does when the total count reaches zero, and \<^verbatim>\<open>FileDelete\<close> when
  it goes as far as the engine's delete: the volume is unmounted before the call returns.
\<close>

lemma FileClose_unmounts:
  assumes "FileClose s This = Some (Status, s')"
  shows "Status = EFI_SUCCESS
    \<and> TotalRefCount (FileSystem s') = TotalRefCount (FileSystem s) - 1
    \<and> (Mounted (FileSystem s') \<longleftrightarrow> Mounted (FileSystem s) \<and> 0 < TotalRefCount (FileSystem s'))"
  using assms
  by (auto simp: FileClose_def NtfsFreeFile_def NtfsCloseFile_def SetFile_def
        AddTotalRefCount_def UnmountIfLast_def NtfsUnmountVolume_def
        split: option.splits if_splits)

lemma FileDelete_writable_unmounts:
  assumes "FileDelete E s This = Some (Status, s')" and "\<not> NtfsIsVolumeReadOnly (FileSystem s)"
    and "Files s (BASE_FILE This) = Some File" and "RefCount File = 1"
    and "\<not> IsRoot File" and "NtfsInode File \<noteq> None"
  shows "Mounted (FileSystem s') \<longleftrightarrow> Mounted (FileSystem s) \<and> 0 < TotalRefCount (FileSystem s')"
  using assms
  by (auto simp: FileDelete_def NtfsDeleteFile_def NtfsFreeFile_def SetFile_def
        AddTotalRefCount_def UnmountIfLast_def NtfsUnmountVolume_def NtfsIsVolumeReadOnly_def
        split: option.splits if_splits)

text \<open>
  C1. On the read-only volume: the volume is opened, the file \<^verbatim>\<open>/a\<close> is opened for
  reading through the root handle, the root handle is closed, and the file handle, the last
  one, is deleted. \<^verbatim>\<open>FileDelete\<close> returns WarnDeleteFailure through its early return for
  a read-only volume (lines 275-278): the total count is 0 and the volume is still mounted.
  Closing the same handle instead, or the same delete on the writable volume, leaves the
  volume unmounted.
\<close>

theorem Delete_last_handle_read_only:
  "map_option (\<lambda>(sts, s). (sts, TotalRefCount (FileSystem s), Mounted (FileSystem s)))
     (Run DemoEnv (DemoVolume True)
        [OpenVolume, Open (EfiFileRW 16) [0x61] EFI_FILE_MODE_READ 0,
         Close (EfiFileRW 16), Delete (EfiFileRO 32)])
     = Some ([EFI_SUCCESS, EFI_SUCCESS, EFI_SUCCESS, EFI_WARN_DELETE_FAILURE], 0, True)
   \<and> map_option (\<lambda>(sts, s). (sts, TotalRefCount (FileSystem s), Mounted (FileSystem s)))
     (Run DemoEnv (DemoVolume True)
        [OpenVolume, Open (EfiFileRW 16) [0x61] EFI_FILE_MODE_READ 0,
         Close (EfiFileRW 16), Close (EfiFileRO 32)])
     = Some ([EFI_SUCCESS, EFI_SUCCESS, EFI_SUCCESS, EFI_SUCCESS], 0, False)
   \<and> map_option (\<lambda>(sts, s). (sts, TotalRefCount (FileSystem s), Mounted (FileSystem s)))
     (Run DemoEnv (DemoVolume False)
        [OpenVolume, Open (EfiFileRW 16) [0x61] EFI_FILE_MODE_READ 0,
         Close (EfiFileRW 16), Delete (EfiFileRO 32)])
     = Some ([EFI_SUCCESS, EFI_SUCCESS, EFI_SUCCESS, EFI_SUCCESS], 0, False)"
  by code_simp

text \<open>
  C2. On the read-only volume, the only reference to the file \<^verbatim>\<open>/a\<close> is deleted:
  the reference count of the instance reaches 0 and the instance is not destroyed, its
  engine node still open and its path still allocated. Closing the same handle instead
  destroys the instance.
\<close>

theorem Delete_read_only_keeps_instance:
  "map_option (\<lambda>(sts, s). (sts, map_option (\<lambda>F. (RefCount F, NtfsInode F, Path F)) (Files s 32)))
     (Run DemoEnv (DemoVolume True)
        [OpenVolume, Open (EfiFileRW 16) [0x61] EFI_FILE_MODE_READ 0, Delete (EfiFileRO 32)])
     = Some ([EFI_SUCCESS, EFI_SUCCESS, EFI_WARN_DELETE_FAILURE],
             Some (0, Some 64, Some [PATH_CHAR, 0x61]))
   \<and> map_option (\<lambda>(sts, s). (sts, map_option (\<lambda>F. (RefCount F, NtfsInode F, Path F)) (Files s 32)))
     (Run DemoEnv (DemoVolume True)
        [OpenVolume, Open (EfiFileRW 16) [0x61] EFI_FILE_MODE_READ 0, Close (EfiFileRO 32)])
     = Some ([EFI_SUCCESS, EFI_SUCCESS, EFI_SUCCESS], None)"
  by code_simp

subsection \<open>Listing a directory\<close>

lemma DirHook_skips:
  "\<not> SpecListed E e \<Longrightarrow> DirHook E d e = Some (0, d, None)"
  by (auto simp: DirHook_def SpecListed_def FILE_ROOT_def FILE_FIRST_USER_def not_le)

lemma DirHook_lists:
  assumes "SpecListed E e" and "NameLen e < 256" and "(NameLen e + 1) * 2 \<le> Size (Info d)"
    and "\<not> EFI_ERROR (fst (engGetFileInfo E (Parent d) (MRef e) (DtType e = 4)))"
  shows "\<exists>d'. DirHook E d e = Some (1, d', None)
           \<and> FileName (Info d') = take (NameLen e) (EntryName e)
           \<and> Size (Info d') = SIZE_OF_EFI_FILE_INFO E + (NameLen e + 1) * 2"
  using assms
  by (auto simp: DirHook_def SpecListed_def FILE_ROOT_def FILE_FIRST_USER_def
        NtfsGetFileInfo_def split: prod.splits)

lemma visit_entries_none_listed:
  "\<forall>e\<in>set es. \<not> SpecListed E e \<Longrightarrow>
     visit_entries (DirHook E) es pos d = Some (EFI_END_OF_FILE, pos + length es, d)"
  by (induction es arbitrary: pos) (simp_all add: DirHook_skips)

lemma visit_entries_first_listed:
  assumes "\<forall>x\<in>set pre. \<not> SpecListed E x" and "SpecListed E e" and "NameLen e < 256"
    and "(NameLen e + 1) * 2 \<le> Size (Info d)"
    and "\<not> EFI_ERROR (fst (engGetFileInfo E (Parent d) (MRef e) (DtType e = 4)))"
  shows "\<exists>d'. visit_entries (DirHook E) (pre @ e # rest) pos d
                 = Some (EFI_SUCCESS, pos + length pre + 1, d')
           \<and> FileName (Info d') = take (NameLen e) (EntryName e)
           \<and> Size (Info d') = SIZE_OF_EFI_FILE_INFO E + (NameLen e + 1) * 2"
  using assms(1)
proof (induction pre arbitrary: pos)
  case Nil
  from DirHook_lists [OF assms(2-5)] show ?case
    by auto
next
  case (Cons x xs)
  then have "\<not> SpecListed E x" and "\<forall>x\<in>set xs. \<not> SpecListed E x"
    by simp_all
  with Cons.IH [of "pos + 1"] show ?case
    by (simp add: DirHook_skips)
qed

lemma FileRead_dir_end:
  assumes "Files s (BASE_FILE This) = Some File" and "IsDir File" and "NtfsInode File \<noteq> None"
    and "DirPos File = int p"
    and "engReadDirectory E (NtfsInode File) = (st, ents)" and "\<not> EFI_ERROR st"
    and "\<forall>x\<in>set (drop p ents). \<not> SpecListed E x"
  shows "\<exists>s' Data'. FileRead E s This Len Data = Some (EFI_SUCCESS, s', 0, Data')"
  using assms visit_entries_none_listed [of "drop p ents" E p]
  by (simp add: FileRead_def FileReadDir_def NtfsReadDirectory_def)

lemma FileRead_dir_entry:
  assumes "Files s (BASE_FILE This) = Some File" and "IsDir File" and "NtfsInode File \<noteq> None"
    and "DirPos File = int p"
    and "engReadDirectory E (NtfsInode File) = (st, ents)" and "\<not> EFI_ERROR st"
    and "drop p ents = pre @ e # rest"
    and "\<forall>x\<in>set pre. \<not> SpecListed E x" and "SpecListed E e" and "NameLen e < 256"
    and "(NameLen e + 1) * 2 \<le> Len"
    and "\<not> EFI_ERROR (fst (engGetFileInfo E File (MRef e) (DtType e = 4)))"
  shows "\<exists>Len' info. FileRead E s This Len Data
            = Some (EFI_SUCCESS,
                    SetFile (BASE_FILE This) (File\<lparr>DirPos := int (p + length pre + 1)\<rparr>) s,
                    Len', FileInfo info)
          \<and> 0 < Len' \<and> FileName info = take (NameLen e) (EntryName e)"
proof -
  let ?d = "\<lparr>Parent = File, Info = (INFO_OF Data)\<lparr>Size := Len\<rparr>\<rparr>"
  have "(NameLen e + 1) * 2 \<le> Size (Info ?d)"
    and "\<not> EFI_ERROR (fst (engGetFileInfo E (Parent ?d) (MRef e) (DtType e = 4)))"
    using assms(11,12) by simp_all
  from visit_entries_first_listed [OF assms(8,9,10) this, of rest p]
  obtain d' where v: "visit_entries (DirHook E) (pre @ e # rest) p ?d
                        = Some (EFI_SUCCESS, p + length pre + 1, d')"
    and n: "FileName (Info d') = take (NameLen e) (EntryName e)"
    and z: "Size (Info d') = SIZE_OF_EFI_FILE_INFO E + (NameLen e + 1) * 2"
    by blast
  from assms(1-7) v have "FileRead E s This Len Data
            = Some (EFI_SUCCESS,
                    SetFile (BASE_FILE This) (File\<lparr>DirPos := int (p + length pre + 1)\<rparr>) s,
                    Size (Info d'), FileInfo (Info d'))"
    by (simp add: FileRead_def FileReadDir_def NtfsReadDirectory_def SetFile_def)
  with n z show ?thesis
    by simp
qed

lemma ReadEntries_from:
  assumes ok: "\<forall>e\<in>set ents. SpecListed E e \<longrightarrow>
                 NameLen e < 256 \<and> (NameLen e + 1) * 2 \<le> Len
                 \<and> (\<forall>F. \<not> EFI_ERROR (fst (engGetFileInfo E F (MRef e) (DtType e = 4))))"
    and eng: "engReadDirectory E ino = (st, ents)" "\<not> EFI_ERROR st" "ino \<noteq> None"
  shows "Files s (BASE_FILE This) = Some File \<Longrightarrow> IsDir File \<Longrightarrow> NtfsInode File = ino \<Longrightarrow>
         DirPos File = int p \<Longrightarrow> length ents - p < n \<Longrightarrow>
         \<exists>ds. ReadEntries n E s This Len Data = Some (ds, EndOfDirectory)
            \<and> map (\<lambda>d. FileName (INFO_OF d)) ds
                = map (\<lambda>e. take (NameLen e) (EntryName e)) (filter (SpecListed E) (drop p ents))"
proof (induction n arbitrary: s File p Data)
  case 0
  then show ?case by simp
next
  case (Suc n)
  note live = Suc.prems(1-4)
  have eng': "engReadDirectory E (NtfsInode File) = (st, ents)" and ino: "NtfsInode File \<noteq> None"
    using eng Suc.prems(3) by simp_all
  show ?case
  proof (cases "\<exists>x\<in>set (drop p ents). SpecListed E x")
    case False
    then have none: "\<forall>x\<in>set (drop p ents). \<not> SpecListed E x"
      by simp
    from FileRead_dir_end [OF live(1,2) ino live(4) eng' eng(2) none, of Len Data]
    obtain s' Data' where "FileRead E s This Len Data = Some (EFI_SUCCESS, s', 0, Data')"
      by blast
    moreover from none have "filter (SpecListed E) (drop p ents) = []"
      by (simp add: filter_empty_conv)
    ultimately show ?thesis
      by simp
  next
    case True
    from split_list_first_prop [OF this]
    obtain pre e rest where split: "drop p ents = pre @ e # rest"
      and e: "SpecListed E e" and pre: "\<forall>x\<in>set pre. \<not> SpecListed E x"
      by blast
    from split have "e \<in> set (drop p ents)"
      by simp
    then have "e \<in> set ents"
      by (rule in_set_dropD)
    with ok e have oke: "NameLen e < 256" "(NameLen e + 1) * 2 \<le> Len"
      "\<not> EFI_ERROR (fst (engGetFileInfo E File (MRef e) (DtType e = 4)))"
      by auto
    let ?p' = "p + length pre + 1"
    let ?File' = "File\<lparr>DirPos := int ?p'\<rparr>"
    let ?s' = "SetFile (BASE_FILE This) ?File' s"
    from FileRead_dir_entry [OF live(1,2) ino live(4) eng' eng(2) split pre e oke, of Data]
    obtain Len' info where r: "FileRead E s This Len Data
        = Some (EFI_SUCCESS, ?s', Len', FileInfo info)"
      and pos: "0 < Len'" and name: "FileName info = take (NameLen e) (EntryName e)"
      by blast
    have rest: "drop ?p' ents = rest"
    proof -
      have "drop (length pre + 1) (drop p ents) = rest"
        using split by simp
      then show ?thesis
        by (simp add: add.commute add.left_commute)
    qed
    have "p < length ents"
      using split by (cases "p < length ents") simp_all
    moreover have "length ents - p < Suc n"
      using Suc.prems(5) .
    ultimately have fuel: "length ents - ?p' < n"
      by arith
    have "Files ?s' (BASE_FILE This) = Some ?File'" "IsDir ?File'" "NtfsInode ?File' = ino"
      "DirPos ?File' = int ?p'"
      using live by (simp_all add: SetFile_def)
    from Suc.IH [OF this fuel, of "FileInfo info"] rest
    obtain ds where ds: "ReadEntries n E ?s' This Len (FileInfo info) = Some (ds, EndOfDirectory)"
      and names: "map (\<lambda>d. FileName (INFO_OF d)) ds
                    = map (\<lambda>e. take (NameLen e) (EntryName e)) (filter (SpecListed E) rest)"
      by auto
    have "filter (SpecListed E) (drop p ents) = e # filter (SpecListed E) rest"
      using split e pre by (simp add: filter_empty_conv)
    with r pos ds names name show ?thesis
      by simp
  qed
qed

lemma ReadEntries_length:
  "ReadEntries n E s This Len Data = Some (ds, r) \<Longrightarrow> length ds \<le> n"
proof (induction n arbitrary: s Data ds r)
  case 0
  then show ?case by simp
next
  case (Suc n)
  then show ?case
    by (fastforce split: option.splits prod.splits if_splits)
qed


text \<open>
  C7. A directory handle at position 0, the engine's directory read giving the entries
  \<open>ents\<close>; every entry that the rule lists has a name shorter than 256 code units
  that fits a buffer of \<open>Len\<close> bytes, and the engine's metadata query succeeds for it.
  A caller that repeats \<^verbatim>\<open>FileRead\<close> with such a buffer reaches the end of the
  directory within \<open>length ents + 1\<close> calls, and the names returned are, in order, those
  of the entries whose inode number is 5 (the root) or at least 16, and of no other entry.
  Each call returns one entry at most: \<open>n\<close> calls return at most \<open>n\<close> entries.
\<close>

theorem ReadEntries_skip_rule:
  assumes "Files s (BASE_FILE This) = Some File" and "IsDir File" and "NtfsInode File \<noteq> None"
    and "DirPos File = 0"
    and "engReadDirectory E (NtfsInode File) = (st, ents)" and "\<not> EFI_ERROR st"
    and "\<forall>e\<in>set ents. GetInodeNumber E (MRef e) = 5 \<or> 16 \<le> GetInodeNumber E (MRef e) \<longrightarrow>
           NameLen e < 256 \<and> (NameLen e + 1) * 2 \<le> Len
           \<and> (\<forall>F. \<not> EFI_ERROR (fst (engGetFileInfo E F (MRef e) (DtType e = 4))))"
  shows "(\<exists>ds. ReadEntries (length ents + 1) E s This Len Data = Some (ds, EndOfDirectory)
            \<and> map (\<lambda>d. FileName (INFO_OF d)) ds
                = map (\<lambda>e. take (NameLen e) (EntryName e))
                    (filter (\<lambda>e. GetInodeNumber E (MRef e) = 5 \<or> 16 \<le> GetInodeNumber E (MRef e))
                       ents))
    \<and> (\<forall>n ds r. ReadEntries n E s This Len Data = Some (ds, r) \<longrightarrow> length ds \<le> n)"
proof -
  have listed: "SpecListed E = (\<lambda>e. GetInodeNumber E (MRef e) = 5 \<or> 16 \<le> GetInodeNumber E (MRef e))"
    by (simp add: fun_eq_iff SpecListed_def)
  have ok: "\<forall>e\<in>set ents. SpecListed E e \<longrightarrow>
              NameLen e < 256 \<and> (NameLen e + 1) * 2 \<le> Len
              \<and> (\<forall>F. \<not> EFI_ERROR (fst (engGetFileInfo E F (MRef e) (DtType e = 4))))"
    using assms(7) by (simp add: SpecListed_def)
  have pos: "DirPos File = int 0"
    using assms(4) by simp
  have fuel: "length ents - 0 < length ents + 1"
    by simp
  from ReadEntries_from [OF ok assms(5,6,3) assms(1,2) refl pos fuel, of Data]
  have "\<exists>ds. ReadEntries (length ents + 1) E s This Len Data = Some (ds, EndOfDirectory)
            \<and> map (\<lambda>d. FileName (INFO_OF d)) ds
                = map (\<lambda>e. take (NameLen e) (EntryName e)) (filter (SpecListed E) ents)"
    by simp
  then show ?thesis
    unfolding listed by (blast dest: ReadEntries_length)
qed

text \<open>The root directory of the concrete volume when the engine reads 18 entries with the
  inode numbers 0 to 17: the listing returns the entries of the inodes 5, 16 and 17.\<close>

theorem ReadEntries_skip_rule_witness:
  "\<exists>ds. ReadEntries 19 (DemoEnv\<lparr>engReadDirectory := (\<lambda>i. (EFI_SUCCESS, NumberedEntries 18))\<rparr>)
           (DemoState False 1 0) (EfiFileRW 16) 200 (Bytes []) = Some (ds, EndOfDirectory)
      \<and> map (\<lambda>d. FileName (INFO_OF d)) ds = [[0x46], [0x51], [0x52]]"
proof -
  let ?E = "DemoEnv\<lparr>engReadDirectory := (\<lambda>i. (EFI_SUCCESS, NumberedEntries 18))\<rparr>"
  have a: "Files (DemoState False 1 0) (BASE_FILE (EfiFileRW 16)) = Some (DemoRoot 1)"
    and b: "IsDir (DemoRoot 1)" and c: "NtfsInode (DemoRoot 1) \<noteq> None"
    and d: "DirPos (DemoRoot 1) = 0"
    by simp_all
  have e: "engReadDirectory ?E (NtfsInode (DemoRoot 1)) = (EFI_SUCCESS, NumberedEntries 18)"
    and f: "\<not> EFI_ERROR EFI_SUCCESS"
    by simp_all
  have g: "\<forall>e\<in>set (NumberedEntries 18).
             GetInodeNumber ?E (MRef e) = 5 \<or> 16 \<le> GetInodeNumber ?E (MRef e) \<longrightarrow>
             NameLen e < 256 \<and> (NameLen e + 1) * 2 \<le> 200
             \<and> (\<forall>F. \<not> EFI_ERROR (fst (engGetFileInfo ?E F (MRef e) (DtType e = 4))))"
    by (simp add: NumberedEntries_def DemoEnv_def)
  have n: "length (NumberedEntries 18) + 1 = 19"
    by (simp add: NumberedEntries_def)
  have l: "map (\<lambda>e. take (NameLen e) (EntryName e))
             (filter (\<lambda>e. GetInodeNumber ?E (MRef e) = 5 \<or> 16 \<le> GetInodeNumber ?E (MRef e))
                (NumberedEntries 18)) = [[0x46], [0x51], [0x52]]"
    by code_simp
  from ReadEntries_skip_rule [OF a b c d e f g, of "Bytes []", THEN conjunct1]
  show ?thesis
    unfolding n l .
qed

end
